theory Spec2Isabelle
  imports Main "HOL-Library.Word"
begin

unbundle bit_operations_syntax

section \<open>Machine integers and errors\<close>

type_synonym u8 = "8 word"
type_synonym u32 = "32 word"
type_synonym u64 = "64 word"

text \<open>
  Every \<open>hw_error(...)\<close> call of the source aborts the emulator. A function that can reach
  one returns \<open>hw_error + state\<close>, with \<open>Inl\<close> for the abort.
\<close>

datatype hw_error =
    Bad_offset u64
  | Todo_timer_mode u32
  | Todo_timer_value_read
  | Unknown_class u32
  | Loopback_not_implemented
  | Slave_mode_not_implemented
  | Unimplemented_sequence u64
  | Sample_initiate_not_implemented

definition bind_err :: "hw_error + 'a \<Rightarrow> ('a \<Rightarrow> hw_error + 'b) \<Rightarrow> hw_error + 'b" where
  "bind_err r f = (case r of Inl e \<Rightarrow> Inl e | Inr x \<Rightarrow> f x)"

section \<open>System controller\<close>

text \<open>
  The bit masks \<open>RCC_CR_PLLON\<close>, \<open>RCC_CR_PLLRDY\<close>, \<open>RCC_CFGR_SW\<close> and \<open>RCC_CFGR_SWS\<close> come from
  the header \<open>stm32f2xx_defines.h\<close>; the functions below take them as a parameter.
\<close>

record rcc_defines =
  RCC_CR_PLLON :: u32
  RCC_CR_PLLRDY :: u32
  RCC_CFGR_SW :: u32
  RCC_CFGR_SWS :: u32

text \<open>
  \<open>ssys_state\<close> of the source. \<open>board_did0\<close> is \<open>s->board->did0\<close>, \<open>ssys_irq\<close> the level last
  driven on \<open>s->irq\<close>, and \<open>system_clock_scale\<close> the global variable of that name, which
  in this file only \<open>ssys_calculate_system_clock\<close> assigns. The arrays of three registers
  are functions of the index.
\<close>

record ssys_state =
  pborctl :: u32
  ldopctl :: u32
  int_status :: u32
  int_mask :: u32
  resc :: u32
  rcc :: u32
  rcc_cr :: u32
  rcc_cfgr :: u32
  rcc_anything_else :: u32
  rcc2 :: u32
  rcgc :: "nat \<Rightarrow> u32"
  scgc :: "nat \<Rightarrow> u32"
  dcgc :: "nat \<Rightarrow> u32"
  clkvclr :: u32
  ldoarst :: u32
  ssys_irq :: bool
  board_did0 :: u32
  system_clock_scale :: u32

definition ssys_update :: "ssys_state \<Rightarrow> ssys_state" where
  "ssys_update s = s\<lparr>ssys_irq := (int_status s AND int_mask s \<noteq> 0)\<rparr>"

definition DID0_VER_MASK :: u32 where "DID0_VER_MASK = 0x70000000"
definition DID0_VER_0 :: u32 where "DID0_VER_0 = 0x00000000"
definition DID0_VER_1 :: u32 where "DID0_VER_1 = 0x10000000"
definition DID0_CLASS_MASK :: u32 where "DID0_CLASS_MASK = 0x00FF0000"
definition DID0_CLASS_SANDSTORM :: u32 where "DID0_CLASS_SANDSTORM = 0x00000000"
definition DID0_CLASS_FURY :: u32 where "DID0_CLASS_FURY = 0x00010000"

definition ssys_board_class :: "ssys_state \<Rightarrow> hw_error + u32" where
  "ssys_board_class s =
     (let did0 = board_did0 s in
      if did0 AND DID0_VER_MASK = DID0_VER_0 then Inr DID0_CLASS_SANDSTORM
      else if did0 AND DID0_VER_MASK = DID0_VER_1
              \<and> (did0 AND DID0_CLASS_MASK = DID0_CLASS_SANDSTORM
                 \<or> did0 AND DID0_CLASS_MASK = DID0_CLASS_FURY)
      then Inr (did0 AND DID0_CLASS_MASK)
      else Inl (Unknown_class did0))"

definition ssys_use_rcc2 :: "ssys_state \<Rightarrow> bool" where
  "ssys_use_rcc2 s = (drop_bit 31 (rcc2 s) AND 1 \<noteq> 0)"

definition ssys_calculate_system_clock :: "ssys_state \<Rightarrow> ssys_state" where
  "ssys_calculate_system_clock s =
     (if ssys_use_rcc2 s
      then s\<lparr>system_clock_scale := 5 * ((drop_bit 23 (rcc2 s) AND 0x3f) + 1)\<rparr>
      else s\<lparr>system_clock_scale := 5 * ((drop_bit 23 (rcc s) AND 0xf) + 1)\<rparr>)"

text \<open>
  \<open>ssys_write\<close>: \<open>value\<close> is a \<open>uint64_t\<close>, and every store into a \<open>uint32_t\<close> register
  keeps its low 32 bits (\<open>ucast\<close>). The \<open>printf\<close> calls are left out.
\<close>

definition ssys_write :: "rcc_defines \<Rightarrow> ssys_state \<Rightarrow> u64 \<Rightarrow> u64 \<Rightarrow> ssys_state" where
  "ssys_write d s offset val =
     ssys_update
       (if offset = 0x00 then
          (let s1 = s\<lparr>rcc_cr := ucast val\<rparr> in
           if rcc_cr s1 OR RCC_CR_PLLON d \<noteq> 0
           then s1\<lparr>rcc_cr := rcc_cr s1 OR RCC_CR_PLLRDY d\<rparr>
           else s1)
        else if offset = 0x08 then
          (let s1 = s\<lparr>rcc_cfgr := ucast val AND NOT (RCC_CFGR_SWS d)\<rparr> in
           s1\<lparr>rcc_cfgr := rcc_cfgr s1 OR push_bit 2 (rcc_cfgr s1 AND RCC_CFGR_SW d)\<rparr>)
        else s\<lparr>rcc_anything_else := ucast val\<rparr>)"

definition ssys_reset :: "ssys_state \<Rightarrow> hw_error + ssys_state" where
  "ssys_reset s =
     (let s1 = s\<lparr>pborctl := 0x7ffd, rcc := 0x078e3ac0\<rparr> in
      bind_err (ssys_board_class s1) (\<lambda>c.
        let s2 = (if c = DID0_CLASS_SANDSTORM then s1\<lparr>rcc2 := 0\<rparr>
                  else s1\<lparr>rcc2 := 0x07802810\<rparr>);
            s3 = s2\<lparr>rcgc := (rcgc s2)(0 := 1)\<rparr>;
            s4 = s3\<lparr>scgc := (scgc s3)(0 := 1)\<rparr>;
            s5 = s4\<lparr>dcgc := (dcgc s4)(0 := 1)\<rparr>
        in Inr (ssys_calculate_system_clock s5)))"

definition stm32_sys_post_load :: "ssys_state \<Rightarrow> ssys_state" where
  "stm32_sys_post_load s = ssys_calculate_system_clock s"

text \<open>A sequence of guest writes \<open>(offset, value)\<close> to the system controller, in order.\<close>

fun ssys_writes :: "rcc_defines \<Rightarrow> ssys_state \<Rightarrow> (u64 \<times> u64) list \<Rightarrow> ssys_state" where
  "ssys_writes d s [] = s"
| "ssys_writes d s ((offset, val) # ws) = ssys_writes d (ssys_write d s offset val) ws"

text \<open>
  The divisor field of the specification: the 6-bit field at bits 28:23 of \<open>rcc2\<close> when bit
  31 of \<open>rcc2\<close> is set, otherwise the 4-bit field at bits 26:23 of \<open>rcc\<close>.
\<close>

definition divisor_field :: "ssys_state \<Rightarrow> u32" where
  "divisor_field s =
     (if bit (rcc2 s) 31 then take_bit 6 (drop_bit 23 (rcc2 s))
      else take_bit 4 (drop_bit 23 (rcc s)))"

definition clock_scale_ok :: "ssys_state \<Rightarrow> bool" where
  "clock_scale_ok s = (system_clock_scale s = 5 * (divisor_field s + 1))"

text \<open>The values of the ST peripheral library header, used for concrete runs.\<close>

definition stm32f2xx_defines :: rcc_defines where
  "stm32f2xx_defines =
     \<lparr>RCC_CR_PLLON = 0x01000000, RCC_CR_PLLRDY = 0x02000000,
      RCC_CFGR_SW = 0x00000003, RCC_CFGR_SWS = 0x0000000C\<rparr>"

text \<open>The zero-filled state \<open>g_malloc0\<close> hands to \<open>stm32_sys_init\<close>, for a board with \<open>did0\<close>.\<close>

definition ssys_zero :: "u32 \<Rightarrow> ssys_state" where
  "ssys_zero did0 =
     \<lparr>pborctl = 0, ldopctl = 0, int_status = 0, int_mask = 0, resc = 0, rcc = 0,
      rcc_cr = 0, rcc_cfgr = 0, rcc_anything_else = 0, rcc2 = 0,
      rcgc = (\<lambda>_. 0), scgc = (\<lambda>_. 0), dcgc = (\<lambda>_. 0), clkvclr = 0, ldoarst = 0,
      ssys_irq = False, board_did0 = did0, system_clock_scale = 0\<rparr>"

section \<open>General purpose timer module\<close>

text \<open>
  \<open>gptm_state\<close> of the source. The two-element arrays are functions of the channel index
  (0 for timer A, 1 for timer B). \<open>timer n\<close> is the deadline at which \<open>s->timer[n]\<close> is
  pending (\<open>None\<close> when it is not scheduled), \<open>trigger\<close> counts the pulses sent on the ADC
  trigger line, and \<open>gptm_irq\<close> is the level last driven on \<open>s->irq\<close>. The field \<open>mask\<close> of
  the source is \<open>gptm_mask\<close> here.
\<close>

record gptm_state =
  config :: u32
  mode :: "nat \<Rightarrow> u32"
  control :: u32
  state :: u32
  gptm_mask :: u32
  load :: "nat \<Rightarrow> u32"
  match :: "nat \<Rightarrow> u32"
  prescale :: "nat \<Rightarrow> u32"
  match_prescale :: "nat \<Rightarrow> u32"
  rtc :: u32
  tick :: "nat \<Rightarrow> u64"
  timer :: "nat \<Rightarrow> u64 option"
  trigger :: nat
  gptm_irq :: bool

text \<open>
  Modelled from the spec: \<open>get_ticks_per_sec\<close> is declared in \<open>qemu-timer.h\<close>, which is not
  part of the sources at hand; the reload of RTC mode adds "one virtual second", and the
  virtual clock counts nanoseconds (\<open>qemu_get_clock_ns\<close>).
\<close>

definition get_ticks_per_sec :: u64 where
  "get_ticks_per_sec = 1000000000"

definition gptm_update_irq :: "gptm_state \<Rightarrow> gptm_state" where
  "gptm_update_irq s = s\<lparr>gptm_irq := (state s AND gptm_mask s \<noteq> 0)\<rparr>"

definition gptm_stop :: "gptm_state \<Rightarrow> nat \<Rightarrow> gptm_state" where
  "gptm_stop s n = s\<lparr>timer := (timer s)(n := None)\<rparr>"

text \<open>
  \<open>gptm_reload\<close>: \<open>now\<close> is what \<open>qemu_get_clock_ns(vm_clock)\<close> returns (read only when
  \<open>reset\<close> is set) and \<open>scale\<close> the global \<open>system_clock_scale\<close>, an \<open>int\<close>. The product
  \<open>(int64_t)count * system_clock_scale\<close> zero-extends the \<open>uint32_t\<close> count and sign-extends
  the scale; \<open>tick\<close> is an \<open>int64_t\<close>, kept as its 64-bit pattern.
\<close>

definition gptm_reload :: "u64 \<Rightarrow> u32 \<Rightarrow> gptm_state \<Rightarrow> nat \<Rightarrow> bool \<Rightarrow> hw_error + gptm_state" where
  "gptm_reload now scale s n reset =
     (let tick0 = (if reset then now else tick s n) in
      bind_err
        (if config s = 0 then
           (let count = load s 0 OR push_bit 16 (load s 1)
            in Inr (tick0 + ucast count * scast scale))
         else if config s = 1 then Inr (tick0 + get_ticks_per_sec)
         else if mode s n = 0xa then Inr tick0
         else Inl (Todo_timer_mode (mode s n)))
        (\<lambda>t. Inr (s\<lparr>tick := (tick s)(n := t), timer := (timer s)(n := Some t)\<rparr>)))"

text \<open>
  \<open>gptm_tick\<close> is the callback of both timers; \<open>n\<close> is the channel recovered from the opaque
  pointer (\<open>p - s->opaque\<close>).
\<close>

definition gptm_tick :: "u64 \<Rightarrow> u32 \<Rightarrow> gptm_state \<Rightarrow> nat \<Rightarrow> hw_error + gptm_state" where
  "gptm_tick now scale s n =
     bind_err
       (if config s = 0 then
          (let s1 = s\<lparr>state := state s OR 1\<rparr>;
               s2 = (if control s1 AND 0x20 \<noteq> 0 then s1\<lparr>trigger := Suc (trigger s1)\<rparr> else s1)
           in if mode s2 0 AND 1 \<noteq> 0 then Inr (s2\<lparr>control := control s2 AND NOT 1\<rparr>)
              else gptm_reload now scale s2 0 False)
        else if config s = 1 then
          (let s1 = s\<lparr>rtc := rtc s + 1\<rparr>;
               match32 = match s1 0 OR push_bit 16 (match s1 1);
               s2 = (if rtc s1 > match32 then s1\<lparr>rtc := 0\<rparr> else s1);
               s3 = (if rtc s2 = 0 then s2\<lparr>state := state s2 OR 8\<rparr> else s2)
           in gptm_reload now scale s3 0 False)
        else if mode s n = 0xa then Inr s
        else Inl (Todo_timer_mode (mode s n)))
       (\<lambda>s'. Inr (gptm_update_irq s'))"

text \<open>
  \<open>gptm_write\<close>: \<open>value\<close> is a \<open>uint64_t\<close>; a store into a \<open>uint32_t\<close> field keeps the low 32
  bits of the expression.
\<close>

definition gptm_write :: "u64 \<Rightarrow> u32 \<Rightarrow> gptm_state \<Rightarrow> u64 \<Rightarrow> u64 \<Rightarrow> hw_error + gptm_state" where
  "gptm_write now scale s offset val =
     bind_err
       (if offset = 0x00 then Inr (s\<lparr>config := ucast val\<rparr>)
        else if offset = 0x04 then Inr (s\<lparr>mode := (mode s)(0 := ucast val)\<rparr>)
        else if offset = 0x08 then Inr (s\<lparr>mode := (mode s)(1 := ucast val)\<rparr>)
        else if offset = 0x0c then
          (let oldval = control s;
               s1 = s\<lparr>control := ucast val\<rparr>
           in bind_err
                (if (ucast oldval XOR val) AND 1 \<noteq> 0
                 then (if val AND 1 \<noteq> 0 then gptm_reload now scale s1 0 True
                       else Inr (gptm_stop s1 0))
                 else Inr s1)
                (\<lambda>s2. if (ucast oldval XOR val) AND 0x100 \<noteq> 0 \<and> config s2 \<ge> 4
                       then (if val AND 0x100 \<noteq> 0 then gptm_reload now scale s2 1 True
                             else Inr (gptm_stop s2 1))
                       else Inr s2))
        else if offset = 0x18 then Inr (gptm_update_irq (s\<lparr>gptm_mask := ucast (val AND 0x77)\<rparr>))
        else if offset = 0x24 then Inr (s\<lparr>state := state s AND NOT (ucast val)\<rparr>)
        else if offset = 0x28 then
          (let s1 = s\<lparr>load := (load s)(0 := ucast (val AND 0xffff))\<rparr>
           in if config s1 < 4 then Inr (s1\<lparr>load := (load s1)(1 := ucast (drop_bit 16 val))\<rparr>)
              else Inr s1)
        else if offset = 0x2c then Inr (s\<lparr>load := (load s)(1 := ucast (val AND 0xffff))\<rparr>)
        else if offset = 0x30 then
          (let s1 = s\<lparr>match := (match s)(0 := ucast (val AND 0xffff))\<rparr>
           in if config s1 < 4 then Inr (s1\<lparr>match := (match s1)(1 := ucast (drop_bit 16 val))\<rparr>)
              else Inr s1)
        else if offset = 0x34 then Inr (s\<lparr>match := (match s)(1 := ucast (drop_bit 16 val))\<rparr>)
        else if offset = 0x38 then Inr (s\<lparr>prescale := (prescale s)(0 := ucast val)\<rparr>)
        else if offset = 0x3c then Inr (s\<lparr>prescale := (prescale s)(1 := ucast val)\<rparr>)
        else if offset = 0x40 then Inr (s\<lparr>match_prescale := (match_prescale s)(0 := ucast val)\<rparr>)
        else if offset = 0x44 then Inr (s\<lparr>match_prescale := (match_prescale s)(0 := ucast val)\<rparr>)
        else Inl (Bad_offset offset))
       (\<lambda>s'. Inr (gptm_update_irq s'))"

text \<open>
  Modelled from the spec: the virtual clock collaborator (\<open>scheduleAt\<close>, \<open>cancel\<close>) is not
  part of the sources at hand. A scheduled callback runs once when its deadline is reached
  and its handle is then no longer pending, unless the callback schedules it again.
\<close>

definition gptm_timer_fire :: "u64 \<Rightarrow> u32 \<Rightarrow> gptm_state \<Rightarrow> nat \<Rightarrow> hw_error + gptm_state" where
  "gptm_timer_fire now scale s n = gptm_tick now scale (s\<lparr>timer := (timer s)(n := None)\<rparr>) n"

text \<open>\<open>k\<close> consecutive expiries of timer A.\<close>

fun gptm_fires :: "u64 \<Rightarrow> u32 \<Rightarrow> gptm_state \<Rightarrow> nat \<Rightarrow> hw_error + gptm_state" where
  "gptm_fires now scale s 0 = Inr s"
| "gptm_fires now scale s (Suc k) =
     bind_err (gptm_fires now scale s k) (\<lambda>s'. gptm_timer_fire now scale s' 0)"

text \<open>What happens to a timer module: a guest write at a time, or the expiry of a channel.\<close>

datatype gptm_event = Write u64 u64 u64 | Fire nat

fun gptm_step :: "u32 \<Rightarrow> gptm_state \<Rightarrow> gptm_event \<Rightarrow> hw_error + gptm_state" where
  "gptm_step scale s (Write now offset val) = gptm_write now scale s offset val"
| "gptm_step scale s (Fire n) = gptm_timer_fire 0 scale s n"

fun gptm_run :: "u32 \<Rightarrow> gptm_state \<Rightarrow> gptm_event list \<Rightarrow> hw_error + gptm_state" where
  "gptm_run scale s [] = Inr s"
| "gptm_run scale s (e # es) = bind_err (gptm_step scale s e) (\<lambda>s'. gptm_run scale s' es)"

text \<open>The zero-filled device state handed to \<open>stm32_gptm_init\<close>; no timer is pending.\<close>

definition gptm_zero :: gptm_state where
  "gptm_zero =
     \<lparr>config = 0, mode = (\<lambda>_. 0), control = 0, state = 0, gptm_mask = 0, load = (\<lambda>_. 0),
      match = (\<lambda>_. 0), prescale = (\<lambda>_. 0), match_prescale = (\<lambda>_. 0), rtc = 0,
      tick = (\<lambda>_. 0), timer = (\<lambda>_. None), trigger = 0, gptm_irq = False\<rparr>"

text \<open>
  The 32-bit values \<open>gptm_reload\<close> and \<open>gptm_tick\<close> build from the two 16-bit halves:
  \<open>s->load[0] | (s->load[1] << 16)\<close> and \<open>s->match[0] | (s->match[1] << 16)\<close>.
\<close>

definition gptm_load32 :: "gptm_state \<Rightarrow> u32" where
  "gptm_load32 s = load s 0 OR push_bit 16 (load s 1)"

definition gptm_match32 :: "gptm_state \<Rightarrow> u32" where
  "gptm_match32 s = match s 0 OR push_bit 16 (match s 1)"

text \<open>Reading one field of the state a run ends in; \<open>None\<close> when the run aborted.\<close>

definition field_of :: "('s \<Rightarrow> 'a) \<Rightarrow> hw_error + 's \<Rightarrow> 'a option" where
  "field_of f r = (case r of Inl e \<Rightarrow> None | Inr s \<Rightarrow> Some (f s))"

text \<open>
  A guest session in RTC mode with system clock scale 5: load 3 is written and the timer
  enabled at time 100.
\<close>

definition rtc_enable_events :: "gptm_event list" where
  "rtc_enable_events = [Write 0 0x00 1, Write 0 0x28 3, Write 100 0x0c 1]"

text \<open>
  A guest session in RTC mode: match 10, five one-second ticks, then the timer is stopped,
  match 2 is written and the timer is enabled again.
\<close>

definition rtc_rematch_events :: "gptm_event list" where
  "rtc_rematch_events =
     [Write 0 0x00 1, Write 0 0x30 10, Write 0 0x0c 1,
      Fire 0, Fire 0, Fire 0, Fire 0, Fire 0,
      Write 5000000000 0x0c 0, Write 5000000000 0x30 2, Write 5000000000 0x0c 1]"

text \<open>A one-shot 32-bit countdown (load 100) that was enabled at time 1000 with scale 5.\<close>

definition gptm_oneshot_armed :: gptm_state where
  "gptm_oneshot_armed =
     gptm_zero\<lparr>mode := (\<lambda>_. 0)(0 := 1), control := 1, load := (\<lambda>_. 0)(0 := 100),
       tick := (\<lambda>_. 0)(0 := 1500), timer := (\<lambda>_. None)(0 := Some 1500)\<rparr>"

text \<open>The deadline at which channel \<open>n\<close> is scheduled, if it is.\<close>

definition deadline :: "nat \<Rightarrow> gptm_state \<Rightarrow> u64 option" where
  "deadline n s = timer s n"

section \<open>I2C controller\<close>

text \<open>
  Modelled from the spec: the shared bus (\<open>i2c_bus\<close>, \<open>i2c_start_transfer\<close>,
  \<open>i2c_bus_busy\<close>, \<open>i2c_send\<close>, \<open>i2c_recv\<close>, \<open>i2c_end_transfer\<close>) is declared in \<open>i2c.h\<close>, which
  is not part of the sources at hand. The specification describes it as a collaborator
  with \<open>acquire(address, isRead) \<rightarrow> success\<close>, \<open>isBusy\<close>, \<open>sendByte\<close>, \<open>recvByte\<close> and \<open>release\<close>,
  which only one master holds at a time: acquiring fails (arbitration loss) when another
  master owns the bus. The model records who holds the bus, the bytes the addressed device
  will return, and every operation performed, in order.
\<close>

datatype bus_owner = This_master | Other_master

datatype bus_event = Start u8 bool | Send u8 | Recv | Finish

record i2c_bus =
  holder :: "bus_owner option"
  rx_data :: "u8 list"
  bus_log :: "bus_event list"

text \<open>Modelled from the spec: \<open>acquire\<close>; the result is non-zero when the bus is not obtained.\<close>

definition i2c_start_transfer :: "i2c_bus \<Rightarrow> u8 \<Rightarrow> bool \<Rightarrow> u32 \<times> i2c_bus" where
  "i2c_start_transfer b address recv =
     (if holder b = Some Other_master then (1, b)
      else (0, b\<lparr>holder := Some This_master, bus_log := bus_log b @ [Start address recv]\<rparr>))"

text \<open>Modelled from the spec: \<open>isBusy\<close>.\<close>

definition i2c_bus_busy :: "i2c_bus \<Rightarrow> bool" where
  "i2c_bus_busy b = (holder b \<noteq> None)"

text \<open>Modelled from the spec: \<open>sendByte\<close>.\<close>

definition i2c_send :: "i2c_bus \<Rightarrow> u8 \<Rightarrow> i2c_bus" where
  "i2c_send b data = b\<lparr>bus_log := bus_log b @ [Send data]\<rparr>"

text \<open>Modelled from the spec: \<open>recvByte\<close>; the result is an \<open>int\<close>, -1 when there is no byte.\<close>

definition i2c_recv :: "i2c_bus \<Rightarrow> u32 \<times> i2c_bus" where
  "i2c_recv b =
     (case rx_data b of
        [] \<Rightarrow> (- 1, b\<lparr>bus_log := bus_log b @ [Recv]\<rparr>)
      | x # xs \<Rightarrow> (ucast x, b\<lparr>rx_data := xs, bus_log := bus_log b @ [Recv]\<rparr>))"

text \<open>Modelled from the spec: \<open>release\<close>.\<close>

definition i2c_end_transfer :: "i2c_bus \<Rightarrow> i2c_bus" where
  "i2c_end_transfer b = b\<lparr>holder := None, bus_log := bus_log b @ [Finish]\<rparr>"

text \<open>
  \<open>stm32_i2c_state\<close> of the source; \<open>bus\<close> is the state of the bus \<open>s->bus\<close> points to and
  \<open>i2c_irq\<close> the level last driven on \<open>s->irq\<close>.
\<close>

record stm32_i2c_state =
  msa :: u32
  mcs :: u32
  mdr :: u32
  mtpr :: u32
  mimr :: u32
  mris :: u32
  mcr :: u32
  bus :: i2c_bus
  i2c_irq :: bool

definition STELLARIS_I2C_MCS_BUSY :: u32 where "STELLARIS_I2C_MCS_BUSY = 0x01"
definition STELLARIS_I2C_MCS_ERROR :: u32 where "STELLARIS_I2C_MCS_ERROR = 0x02"
definition STELLARIS_I2C_MCS_ADRACK :: u32 where "STELLARIS_I2C_MCS_ADRACK = 0x04"
definition STELLARIS_I2C_MCS_DATACK :: u32 where "STELLARIS_I2C_MCS_DATACK = 0x08"
definition STELLARIS_I2C_MCS_ARBLST :: u32 where "STELLARIS_I2C_MCS_ARBLST = 0x10"
definition STELLARIS_I2C_MCS_IDLE :: u32 where "STELLARIS_I2C_MCS_IDLE = 0x20"
definition STELLARIS_I2C_MCS_BUSBSY :: u32 where "STELLARIS_I2C_MCS_BUSBSY = 0x40"

definition stm32_i2c_update :: "stm32_i2c_state \<Rightarrow> stm32_i2c_state" where
  "stm32_i2c_update s = s\<lparr>i2c_irq := (mris s AND mimr s \<noteq> 0)\<rparr>"

text \<open>
  The three steps of case 0x04 (MCS) of \<open>stm32_i2c_write\<close>, in the order of the source:
  grabbing the bus when a transfer starts, then (only when the bus is held) the byte
  transfer of the run bit and the release of the stop bit.
\<close>

definition i2c_grab_bus :: "stm32_i2c_state \<Rightarrow> u64 \<Rightarrow> stm32_i2c_state" where
  "i2c_grab_bus s val =
     (if val AND 2 \<noteq> 0 \<and> mcs s AND STELLARIS_I2C_MCS_BUSBSY = 0 then
        (case i2c_start_transfer (bus s) (ucast (drop_bit 1 (msa s))) (msa s AND 1 \<noteq> 0) of
           (r, b) \<Rightarrow>
             if r \<noteq> 0 then s\<lparr>bus := b, mcs := mcs s OR STELLARIS_I2C_MCS_ARBLST\<rparr>
             else s\<lparr>bus := b,
                    mcs := (mcs s AND NOT STELLARIS_I2C_MCS_ARBLST) OR STELLARIS_I2C_MCS_BUSBSY\<rparr>)
      else s)"

definition i2c_transfer_byte :: "stm32_i2c_state \<Rightarrow> u64 \<Rightarrow> stm32_i2c_state" where
  "i2c_transfer_byte s val =
     (if val AND 1 \<noteq> 0 then
        (let s1 = (if msa s AND 1 \<noteq> 0
                   then (case i2c_recv (bus s) of (r, b) \<Rightarrow> s\<lparr>mdr := r AND 0xff, bus := b\<rparr>)
                   else s\<lparr>bus := i2c_send (bus s) (ucast (mdr s))\<rparr>)
         in s1\<lparr>mris := mris s1 OR 1\<rparr>)
      else s)"

definition i2c_finish :: "stm32_i2c_state \<Rightarrow> u64 \<Rightarrow> stm32_i2c_state" where
  "i2c_finish s val =
     (if val AND 4 \<noteq> 0
      then s\<lparr>bus := i2c_end_transfer (bus s), mcs := mcs s AND NOT STELLARIS_I2C_MCS_BUSBSY\<rparr>
      else s)"

definition stm32_i2c_write :: "stm32_i2c_state \<Rightarrow> u64 \<Rightarrow> u64 \<Rightarrow> hw_error + stm32_i2c_state" where
  "stm32_i2c_write s offset val =
     bind_err
       (if offset = 0x00 then Inr (s\<lparr>msa := ucast (val AND 0xff)\<rparr>)
        else if offset = 0x04 then
          (if mcr s AND 0x10 = 0 then Inr s
           else
             (let s1 = i2c_grab_bus s val in
              if \<not> i2c_bus_busy (bus s1) \<or> mcs s1 AND STELLARIS_I2C_MCS_BUSBSY = 0
              then Inr (s1\<lparr>mcs := mcs s1 OR STELLARIS_I2C_MCS_ERROR\<rparr>)
              else
                (let s2 = s1\<lparr>mcs := mcs s1 AND NOT STELLARIS_I2C_MCS_ERROR\<rparr>;
                     s3 = i2c_transfer_byte s2 val
                 in Inr (i2c_finish s3 val))))
        else if offset = 0x08 then Inr (s\<lparr>mdr := ucast (val AND 0xff)\<rparr>)
        else if offset = 0x0c then Inr (s\<lparr>mtpr := ucast (val AND 0xff)\<rparr>)
        else if offset = 0x10 then Inr (s\<lparr>mimr := 1\<rparr>)
        else if offset = 0x1c then Inr (s\<lparr>mris := mris s AND NOT (ucast val)\<rparr>)
        else if offset = 0x20 then
          (if val AND 1 \<noteq> 0 then Inl Loopback_not_implemented
           else if val AND 0x20 \<noteq> 0 then Inl Slave_mode_not_implemented
           else Inr (s\<lparr>mcr := ucast (val AND 0x31)\<rparr>))
        else Inl (Bad_offset offset))
       (\<lambda>s'. Inr (stm32_i2c_update s'))"

definition stm32_i2c_reset :: "stm32_i2c_state \<Rightarrow> stm32_i2c_state" where
  "stm32_i2c_reset s =
     (let s1 = (if mcs s AND STELLARIS_I2C_MCS_BUSBSY \<noteq> 0
                then s\<lparr>bus := i2c_end_transfer (bus s)\<rparr> else s)
      in stm32_i2c_update
           (s1\<lparr>msa := 0, mcs := 0, mdr := 0, mtpr := 1, mimr := 0, mris := 0, mcr := 0\<rparr>))"

text \<open>
  A controller right after \<open>stm32_i2c_init\<close> (zero-filled, then reset) on a bus in the given
  condition, and the same controller once the guest has enabled the master (MCR = 0x10).
\<close>

definition i2c_fresh :: "bus_owner option \<Rightarrow> u8 list \<Rightarrow> stm32_i2c_state" where
  "i2c_fresh h rx =
     stm32_i2c_reset
       \<lparr>msa = 0, mcs = 0, mdr = 0, mtpr = 0, mimr = 0, mris = 0, mcr = 0,
        bus = \<lparr>holder = h, rx_data = rx, bus_log = []\<rparr>, i2c_irq = False\<rparr>"

definition i2c_enabled :: "bus_owner option \<Rightarrow> u8 list \<Rightarrow> stm32_i2c_state" where
  "i2c_enabled h rx = (i2c_fresh h rx)\<lparr>mcr := 0x10\<rparr>"

section \<open>Analogue to digital converter\<close>

definition STELLARIS_ADC_EM_TIMER :: u32 where "STELLARIS_ADC_EM_TIMER = 5"
definition STELLARIS_ADC_FIFO_EMPTY :: u32 where "STELLARIS_ADC_FIFO_EMPTY = 0x0100"
definition STELLARIS_ADC_FIFO_FULL :: u32 where "STELLARIS_ADC_FIFO_FULL = 0x1000"

text \<open>
  One element of \<open>s->fifo[4]\<close>: the packed state word (tail in bits 3:0, head in bits 7:4,
  the empty and full flags) and the 16 data slots, a function of the slot index.
\<close>

record adc_fifo =
  fifo_state :: u32
  fifo_data :: "nat \<Rightarrow> u32"

text \<open>
  \<open>stm32_adc_state\<close> of the source; the arrays of four are functions of the sequencer
  number and \<open>adc_irq n\<close> is the level last driven on \<open>s->irq[n]\<close>.
\<close>

record stm32_adc_state =
  actss :: u32
  ris :: u32
  im :: u32
  emux :: u32
  ostat :: u32
  ustat :: u32
  sspri :: u32
  sac :: u32
  fifo :: "nat \<Rightarrow> adc_fifo"
  ssmux :: "nat \<Rightarrow> u32"
  ssctl :: "nat \<Rightarrow> u32"
  noise :: u32
  adc_irq :: "nat \<Rightarrow> bool"

definition stm32_adc_fifo_read :: "stm32_adc_state \<Rightarrow> nat \<Rightarrow> u32 \<times> stm32_adc_state" where
  "stm32_adc_fifo_read s n =
     (let tail = fifo_state (fifo s n) AND 0xf;
          s' = (if fifo_state (fifo s n) AND STELLARIS_ADC_FIFO_EMPTY \<noteq> 0
                then s\<lparr>ustat := ustat s OR push_bit n 1\<rparr>
                else
                  (let st1 = (fifo_state (fifo s n) AND NOT 0xf) OR ((tail + 1) AND 0xf);
                       st2 = st1 AND NOT STELLARIS_ADC_FIFO_FULL;
                       st3 = (if tail + 1 = (drop_bit 4 st2 AND 0xf)
                              then st2 OR STELLARIS_ADC_FIFO_EMPTY else st2)
                   in s\<lparr>fifo := (fifo s)(n := (fifo s n)\<lparr>fifo_state := st3\<rparr>)\<rparr>))
      in (fifo_data (fifo s' n) (unat tail), s'))"

definition stm32_adc_fifo_write :: "stm32_adc_state \<Rightarrow> nat \<Rightarrow> u32 \<Rightarrow> stm32_adc_state" where
  "stm32_adc_fifo_write s n val =
     (let head = drop_bit 4 (fifo_state (fifo s n)) AND 0xf in
      if fifo_state (fifo s n) AND STELLARIS_ADC_FIFO_FULL \<noteq> 0
      then s\<lparr>ostat := ostat s OR push_bit n 1\<rparr>
      else
        (let dat = (fifo_data (fifo s n))(unat head := val);
             head' = (head + 1) AND 0xf;
             st1 = fifo_state (fifo s n) AND NOT STELLARIS_ADC_FIFO_EMPTY;
             st2 = (st1 AND NOT 0xf0) OR push_bit 4 head';
             st3 = (if st2 AND 0xf = head' then st2 OR STELLARIS_ADC_FIFO_FULL else st2)
         in s\<lparr>fifo := (fifo s)(n := \<lparr>fifo_state = st3, fifo_data = dat\<rparr>)\<rparr>))"

text \<open>\<open>stm32_adc_update\<close>: the loop drives the four lines, each from its own bit.\<close>

definition stm32_adc_update :: "stm32_adc_state \<Rightarrow> stm32_adc_state" where
  "stm32_adc_update s =
     s\<lparr>adc_irq := (\<lambda>n. if n < 4 then ris s AND im s AND push_bit n 1 \<noteq> 0 else adc_irq s n)\<rparr>"

text \<open>The body of the loop of \<open>stm32_adc_trigger\<close> for sequencer \<open>n\<close>, and the loop.\<close>

definition adc_trigger_step :: "stm32_adc_state \<Rightarrow> nat \<Rightarrow> stm32_adc_state" where
  "adc_trigger_step s n =
     (if actss s AND push_bit n 1 = 0 then s
      else if drop_bit (n * 4) (emux s) AND 0xff \<noteq> 5 then s
      else
        (let s1 = s\<lparr>noise := noise s * 314159 + 1\<rparr>;
             s2 = stm32_adc_fifo_write s1 n (0x200 + (drop_bit 16 (noise s1) AND 7));
             s3 = s2\<lparr>ris := ris s2 OR push_bit n 1\<rparr>
         in stm32_adc_update s3))"

definition stm32_adc_trigger :: "stm32_adc_state \<Rightarrow> stm32_adc_state" where
  "stm32_adc_trigger s = foldl adc_trigger_step s [0, 1, 2, 3]"

definition stm32_adc_reset :: "stm32_adc_state \<Rightarrow> stm32_adc_state" where
  "stm32_adc_reset s =
     foldl (\<lambda>s n. s\<lparr>ssmux := (ssmux s)(n := 0), ssctl := (ssctl s)(n := 0),
                     fifo := (fifo s)(n := (fifo s n)\<lparr>fifo_state := STELLARIS_ADC_FIFO_EMPTY\<rparr>)\<rparr>)
       s [0, 1, 2, 3]"

definition stm32_adc_write :: "stm32_adc_state \<Rightarrow> u64 \<Rightarrow> u64 \<Rightarrow> hw_error + stm32_adc_state" where
  "stm32_adc_write s offset val =
     (let n = unat (drop_bit 5 (offset - 0x40)) in
      if offset \<ge> 0x40 \<and> offset < 0xc0 \<and> offset AND 0x1f = 0x00
      then Inr (s\<lparr>ssmux := (ssmux s)(n := ucast (val AND 0x33333333))\<rparr>)
      else if offset \<ge> 0x40 \<and> offset < 0xc0 \<and> offset AND 0x1f = 0x04
      then (if val \<noteq> 6 then Inl (Unimplemented_sequence val)
            else Inr (s\<lparr>ssctl := (ssctl s)(n := ucast val)\<rparr>))
      else
        bind_err
          (if offset = 0x00 then Inr (s\<lparr>actss := ucast (val AND 0xf)\<rparr>)
           else if offset = 0x08 then Inr (s\<lparr>im := ucast val\<rparr>)
           else if offset = 0x0c then Inr (s\<lparr>ris := ris s AND NOT (ucast val)\<rparr>)
           else if offset = 0x10 then Inr (s\<lparr>ostat := ostat s AND NOT (ucast val)\<rparr>)
           else if offset = 0x14 then Inr (s\<lparr>emux := ucast val\<rparr>)
           else if offset = 0x18 then Inr (s\<lparr>ustat := ustat s AND NOT (ucast val)\<rparr>)
           else if offset = 0x20 then Inr (s\<lparr>sspri := ucast val\<rparr>)
           else if offset = 0x28 then Inl Sample_initiate_not_implemented
           else if offset = 0x30 then Inr (s\<lparr>sac := ucast val\<rparr>)
           else Inl (Bad_offset offset))
          (\<lambda>s'. Inr (stm32_adc_update s')))"

text \<open>\<open>vs\<close> written to the FIFO of sequencer \<open>n\<close>, one after the other.\<close>

definition adc_fifo_writes :: "stm32_adc_state \<Rightarrow> nat \<Rightarrow> u32 list \<Rightarrow> stm32_adc_state" where
  "adc_fifo_writes s n vs = foldl (\<lambda>s v. stm32_adc_fifo_write s n v) s vs"

text \<open>The zero-filled converter after \<open>stm32_adc_init\<close>, which resets it.\<close>

definition adc_fresh :: stm32_adc_state where
  "adc_fresh =
     stm32_adc_reset
       \<lparr>actss = 0, ris = 0, im = 0, emux = 0, ostat = 0, ustat = 0, sspri = 0, sac = 0,
        fifo = (\<lambda>_. \<lparr>fifo_state = 0, fifo_data = (\<lambda>_. 0)\<rparr>), ssmux = (\<lambda>_. 0),
        ssctl = (\<lambda>_. 0), noise = 0, adc_irq = (\<lambda>_. False)\<rparr>"

text \<open>
  The interrupt outputs agree with the registers: each peripheral's line is high exactly
  when a raw status bit that feeds it is set and unmasked. The converter has one line per
  sequencer, fed by that sequencer's bit of \<open>ris\<close> and \<open>im\<close>.
\<close>

definition gptm_irq_ok :: "gptm_state \<Rightarrow> bool" where
  "gptm_irq_ok s = (gptm_irq s = (state s AND gptm_mask s \<noteq> 0))"

definition ssys_irq_ok :: "ssys_state \<Rightarrow> bool" where
  "ssys_irq_ok s = (ssys_irq s = (int_status s AND int_mask s \<noteq> 0))"

definition i2c_irq_ok :: "stm32_i2c_state \<Rightarrow> bool" where
  "i2c_irq_ok s = (i2c_irq s = (mris s AND mimr s \<noteq> 0))"

definition adc_irq_ok :: "stm32_adc_state \<Rightarrow> bool" where
  "adc_irq_ok s = (\<forall>n<4. adc_irq s n = (ris s AND im s AND push_bit n 1 \<noteq> 0))"

text \<open>
  A converter whose sequencers 0 and 1 are both active and both select the timer as trigger
  source: \<open>actss = 3\<close>, and the two low 4-bit fields of \<open>emux\<close> are 5.
\<close>

definition adc_two_timer_sequencers :: stm32_adc_state where
  "adc_two_timer_sequencers = adc_fresh\<lparr>actss := 3, emux := 0x55\<rparr>"

text \<open>\<open>k\<close> samples read back from the FIFO of sequencer \<open>n\<close>, the values discarded.\<close>

fun adc_fifo_reads :: "stm32_adc_state \<Rightarrow> nat \<Rightarrow> nat \<Rightarrow> stm32_adc_state" where
  "adc_fifo_reads s n 0 = s"
| "adc_fifo_reads s n (Suc k) = snd (stm32_adc_fifo_read (adc_fifo_reads s n k) n)"

text \<open>
  The converter after the samples 1 to 16 were written to the FIFO of sequencer 0, and the
  same converter after all 16 were read back: that FIFO holds no sample any more.
\<close>

definition adc_fifo_filled :: stm32_adc_state where
  "adc_fifo_filled =
     adc_fifo_writes adc_fresh 0 [1, 2, 3, 4, 5, 6, 7, 8, 9, 10, 11, 12, 13, 14, 15, 16]"

definition adc_fifo_drained :: stm32_adc_state where
  "adc_fifo_drained = adc_fifo_reads adc_fifo_filled 0 16"

section \<open>System controller: proofs\<close>

lemma ssys_write_clock_fields:
  "rcc (ssys_write d s offset val) = rcc s"
  "rcc2 (ssys_write d s offset val) = rcc2 s"
  "system_clock_scale (ssys_write d s offset val) = system_clock_scale s"
  by (simp_all add: ssys_write_def ssys_update_def Let_def)

lemma ssys_use_rcc2_bit: "ssys_use_rcc2 s = bit (rcc2 s) 31"
proof -
  have "drop_bit 31 (rcc2 s) AND 1 \<noteq> 0 \<longleftrightarrow> bit (drop_bit 31 (rcc2 s)) 0"
    by (simp add: and_one_eq bit_0 mod_2_eq_odd)
  then show ?thesis
    by (simp add: ssys_use_rcc2_def bit_drop_bit_eq)
qed

lemma clock_scale_ok_calculate: "clock_scale_ok (ssys_calculate_system_clock s)"
proof -
  have m6: "drop_bit 23 (rcc2 s) AND 0x3f = take_bit 6 (drop_bit 23 (rcc2 s))"
    using take_bit_eq_mask [of 6 "drop_bit 23 (rcc2 s)"] by (simp add: mask_eq_exp_minus_1)
  have m4: "drop_bit 23 (rcc s) AND 0xf = take_bit 4 (drop_bit 23 (rcc s))"
    using take_bit_eq_mask [of 4 "drop_bit 23 (rcc s)"] by (simp add: mask_eq_exp_minus_1)
  show ?thesis
    by (simp add: clock_scale_ok_def ssys_calculate_system_clock_def divisor_field_def
        ssys_use_rcc2_bit m6 m4)
qed

lemma clock_scale_ok_write:
  "clock_scale_ok s \<Longrightarrow> clock_scale_ok (ssys_write d s offset val)"
  by (simp add: clock_scale_ok_def divisor_field_def ssys_write_clock_fields)

lemma clock_scale_ok_writes:
  "clock_scale_ok s \<Longrightarrow> clock_scale_ok (ssys_writes d s ws)"
  by (induction ws arbitrary: s) (auto simp: clock_scale_ok_write)

lemma clock_scale_ok_reset: "ssys_reset s = Inr s' \<Longrightarrow> clock_scale_ok s'"
  by (auto simp: ssys_reset_def bind_err_def Let_def clock_scale_ok_calculate
      split: sum.splits if_splits)

text \<open>
  C1. After every register write of the system controller, \<open>system_clock_scale\<close> equals
  \<open>5 * (divisorField + 1)\<close>, with the divisor field taken from \<open>rcc2\<close> (6 bits at 28:23)
  when bit 31 of \<open>rcc2\<close> is set and from \<open>rcc\<close> (4 bits at 26:23) otherwise: the equation
  holds after reset and after state restore, every write at every offset with every value
  keeps it, and so it holds after any sequence of writes.
\<close>

theorem ssys_clock_scale_invariant:
  assumes "ssys_reset s = Inr s0"
  shows "system_clock_scale (ssys_writes d s0 ws) = 5 * (divisor_field (ssys_writes d s0 ws) + 1)
    \<and> system_clock_scale (ssys_writes d (stm32_sys_post_load t) ws)
        = 5 * (divisor_field (ssys_writes d (stm32_sys_post_load t) ws) + 1)
    \<and> (system_clock_scale u = 5 * (divisor_field u + 1)
        \<longrightarrow> system_clock_scale (ssys_write d u offset val)
            = 5 * (divisor_field (ssys_write d u offset val) + 1))"
proof -
  from assms have "clock_scale_ok s0"
    by (rule clock_scale_ok_reset)
  then have a: "clock_scale_ok (ssys_writes d s0 ws)"
    by (rule clock_scale_ok_writes)
  have b: "clock_scale_ok (ssys_writes d (stm32_sys_post_load t) ws)"
    by (simp add: stm32_sys_post_load_def clock_scale_ok_calculate clock_scale_ok_writes)
  have c: "clock_scale_ok u \<longrightarrow> clock_scale_ok (ssys_write d u offset val)"
    by (simp add: clock_scale_ok_write)
  from a b c show ?thesis
    unfolding clock_scale_ok_def by blast
qed

lemma ssys_reset_zero:
  "ssys_reset (ssys_zero 0)
   = Inr (ssys_calculate_system_clock
       ((ssys_zero 0)\<lparr>pborctl := 0x7ffd, rcc := 0x078e3ac0, rcc2 := 0,
          rcgc := (\<lambda>_. 0)(0 := 1), scgc := (\<lambda>_. 0)(0 := 1), dcgc := (\<lambda>_. 0)(0 := 1)\<rparr>))"
  by (simp add: ssys_reset_def ssys_zero_def ssys_board_class_def bind_err_def Let_def
      DID0_VER_MASK_def DID0_VER_0_def DID0_CLASS_SANDSTORM_def)

theorem ssys_clock_scale_invariant_witness:
  "\<exists>s0. ssys_reset (ssys_zero 0) = Inr s0
     \<and> system_clock_scale (ssys_writes stm32f2xx_defines s0 [(0x00, 0), (0x08, 2), (0x60, 0x07C00000)])
       = 5 * (divisor_field (ssys_writes stm32f2xx_defines s0 [(0x00, 0), (0x08, 2), (0x60, 0x07C00000)]) + 1)
     \<and> system_clock_scale (ssys_writes stm32f2xx_defines s0 [(0x00, 0), (0x08, 2), (0x60, 0x07C00000)]) = 80"
proof -
  let ?ws = "[(0x00, 0), (0x08, 2), (0x60, 0x07C00000)] :: (u64 \<times> u64) list"
  obtain s0 where r: "ssys_reset (ssys_zero 0) = Inr s0"
    using ssys_reset_zero by blast
  have s0: "system_clock_scale s0 = 80"
    using r unfolding ssys_reset_zero
    by (auto simp: ssys_calculate_system_clock_def ssys_use_rcc2_def ssys_zero_def)
  have "system_clock_scale (ssys_writes stm32f2xx_defines s0 ?ws) = 80"
    by (simp add: ssys_write_clock_fields s0)
  with r ssys_clock_scale_invariant [OF r, of stm32f2xx_defines ?ws]
  show ?thesis by blast
qed

text \<open>
  C9. Every value written to the clock-control register (offset 0x00) leaves the PLL-ready
  bit set in the stored register, whether or not the value requests PLL enable: the test
  \<open>rcc_cr | RCC_CR_PLLON\<close> is an OR with a non-zero mask and so is always true. The stored
  register is the written value with the ready bit added.
\<close>

theorem ssys_write_cr_pll_ready:
  assumes "RCC_CR_PLLON d \<noteq> 0"
  shows "rcc_cr (ssys_write d s 0x00 val) = ucast val OR RCC_CR_PLLRDY d
    \<and> rcc_cr (ssys_write d s 0x00 val) AND RCC_CR_PLLRDY d = RCC_CR_PLLRDY d"
proof -
  have nz: "(ucast val :: u32) OR RCC_CR_PLLON d \<noteq> 0"
    using assms by (simp add: or_eq_0_iff)
  have eq: "rcc_cr (ssys_write d s 0x00 val) = ucast val OR RCC_CR_PLLRDY d"
    using nz by (simp add: ssys_write_def ssys_update_def Let_def)
  have "(ucast val OR RCC_CR_PLLRDY d) AND RCC_CR_PLLRDY d = RCC_CR_PLLRDY d"
    by (simp add: bit_eq_iff bit_and_iff bit_or_iff)
  with eq show ?thesis by simp
qed

theorem ssys_write_cr_pll_ready_witness:
  "RCC_CR_PLLON stm32f2xx_defines \<noteq> 0
   \<and> rcc_cr (ssys_write stm32f2xx_defines (ssys_zero 0) 0x00 0) = 0x02000000
   \<and> rcc_cr (ssys_write stm32f2xx_defines (ssys_zero 0) 0x00 0) AND 0x02000000 = 0x02000000"
proof -
  have h: "RCC_CR_PLLON stm32f2xx_defines \<noteq> 0"
    by (simp add: stm32f2xx_defines_def)
  show ?thesis
    using h ssys_write_cr_pll_ready [OF h, of "ssys_zero 0" 0]
    by (simp add: stm32f2xx_defines_def)
qed

section \<open>Timer module: proofs\<close>

lemma and_1_bit0: "(w AND 1 \<noteq> 0) = bit w 0" for w :: "'a::len word"
  by (simp add: and_one_eq bit_0 mod_2_eq_odd)

lemma gptm_reload_frame:
  "gptm_reload now scale s n reset = Inr s' \<Longrightarrow>
     config s' = config s \<and> mode s' = mode s \<and> control s' = control s \<and> state s' = state s
     \<and> gptm_mask s' = gptm_mask s \<and> load s' = load s \<and> match s' = match s
     \<and> prescale s' = prescale s \<and> match_prescale s' = match_prescale s \<and> rtc s' = rtc s
     \<and> trigger s' = trigger s \<and> gptm_irq s' = gptm_irq s
     \<and> (\<forall>m. m \<noteq> n \<longrightarrow> timer s' m = timer s m \<and> tick s' m = tick s m)
     \<and> timer s' n = Some (tick s' n)"
  by (auto simp: gptm_reload_def bind_err_def Let_def split: if_splits)

lemma gptm_write_match_prescale_B:
  "gptm_write now scale s offset v = Inr s' \<Longrightarrow> match_prescale s' 1 = match_prescale s 1"
  unfolding gptm_write_def bind_err_def Let_def gptm_update_irq_def gptm_stop_def
  by (auto split: if_splits sum.splits dest!: gptm_reload_frame)

lemma gptm_tick_match_prescale:
  "gptm_tick now scale s n = Inr s' \<Longrightarrow> match_prescale s' = match_prescale s"
  unfolding gptm_tick_def bind_err_def Let_def gptm_update_irq_def
  by (auto split: if_splits sum.splits dest!: gptm_reload_frame)

text \<open>
  C10. A write to the timer-B match-prescale register (offset 0x44) stores the value into
  \<open>match_prescale[0]\<close>, the slot of channel A, and leaves \<open>match_prescale[1]\<close> as it was; no
  register write at any offset and no timer expiry changes \<open>match_prescale[1]\<close>.
\<close>

theorem gptm_write_tbpmr_hits_channel_A:
  "(\<exists>s1. gptm_write now scale s 0x44 val = Inr s1
        \<and> match_prescale s1 0 = ucast val \<and> match_prescale s1 1 = match_prescale s 1)
   \<and> (gptm_write now scale s offset v = Inr s' \<longrightarrow> match_prescale s' 1 = match_prescale s 1)
   \<and> (gptm_tick now scale s n = Inr s'' \<longrightarrow> match_prescale s'' 1 = match_prescale s 1)"
proof -
  have "gptm_write now scale s 0x44 val
        = Inr (gptm_update_irq (s\<lparr>match_prescale := (match_prescale s)(0 := ucast val)\<rparr>))"
    by (simp add: gptm_write_def bind_err_def)
  then have "\<exists>s1. gptm_write now scale s 0x44 val = Inr s1
        \<and> match_prescale s1 0 = ucast val \<and> match_prescale s1 1 = match_prescale s 1"
    by (simp add: gptm_update_irq_def)
  then show ?thesis
    using gptm_write_match_prescale_B [of now scale s offset v s']
      gptm_tick_match_prescale [of now scale s n s'']
    by simp
qed

theorem gptm_write_tbpmr_hits_channel_A_witness:
  "field_of match_prescale (gptm_write 0 5 (gptm_zero\<lparr>match_prescale := (\<lambda>_. 7)\<rparr>) 0x44 0x12)
   \<noteq> None
   \<and> (\<exists>s1. gptm_write 0 5 (gptm_zero\<lparr>match_prescale := (\<lambda>_. 7)\<rparr>) 0x44 0x12 = Inr s1
         \<and> match_prescale s1 0 = 0x12 \<and> match_prescale s1 1 = 7)"
proof -
  let ?s = "gptm_zero\<lparr>match_prescale := (\<lambda>_. 7)\<rparr>"
  have e: "gptm_write 0 5 ?s 0x44 0x12
           = Inr (gptm_update_irq (?s\<lparr>match_prescale := (match_prescale ?s)(0 := 0x12)\<rparr>))"
    by (simp add: gptm_write_def bind_err_def)
  from gptm_write_tbpmr_hits_channel_A
    [of 0 5 ?s "0x12" "0x44" "0x12"
        "gptm_update_irq (?s\<lparr>match_prescale := (match_prescale ?s)(0 := 0x12)\<rparr>)"]
  show ?thesis
    using e by (simp add: field_of_def gptm_zero_def)
qed

lemma gptm_tick_oneshot:
  assumes "config s = 0" and "mode s 0 AND 1 \<noteq> 0"
  shows "\<exists>s'. gptm_tick now scale s n = Inr s' \<and> control s' = control s AND NOT 1
     \<and> state s' = state s OR 1 \<and> timer s' = timer s \<and> tick s' = tick s
     \<and> config s' = 0 \<and> mode s' = mode s"
  using assms by (simp add: gptm_tick_def bind_err_def Let_def gptm_update_irq_def)

lemma gptm_write_arms_A:
  assumes "gptm_write now scale t offset v = Inr t'" and "timer t 0 = None"
    and "timer t' 0 \<noteq> None"
  shows "offset = 0x0c \<and> \<not> bit (control t) 0 \<and> bit v 0"
  using assms
  unfolding gptm_write_def bind_err_def Let_def gptm_update_irq_def gptm_stop_def
  by (auto split: if_splits sum.splits dest!: gptm_reload_frame
      simp: and_1_bit0 bit_xor_iff bit_ucast_iff)

lemma bit0_and_not_1: "\<not> bit (w AND NOT 1) 0" for w :: u32
  by (simp add: bit_0 even_and_iff)

text \<open>
  C4. A one-shot timer in 32-bit countdown mode (\<open>config = 0\<close>, bit 0 of \<open>mode[0]\<close> set)
  fires once: the expiry sets the timeout status bit, clears the enable bit (bit 0 of
  \<open>control\<close>), performs no reload (the stored deadline is unchanged) and leaves timer A
  unscheduled. After that no expiry of either channel schedules timer A while the module
  stays in this mode, and a register write schedules timer A only if it is a write of the
  control register that sets the enable bit which was clear.
\<close>

theorem gptm_one_shot_fires_once:
  assumes "config s = 0" and "mode s 0 AND 1 \<noteq> 0"
  shows "\<exists>s'. gptm_timer_fire now scale s 0 = Inr s'
       \<and> control s' = control s AND NOT 1 \<and> \<not> bit (control s') 0
       \<and> state s' = state s OR 1
       \<and> tick s' = tick s \<and> timer s' 0 = None
       \<and> (\<exists>t. gptm_timer_fire now' scale s' n = Inr t \<and> timer t 0 = None)
       \<and> (gptm_write now' scale s' offset v = Inr t' \<and> timer t' 0 \<noteq> None
            \<longrightarrow> offset = 0x0c \<and> bit v 0)"
proof -
  let ?u = "s\<lparr>timer := (timer s)(0 := None)\<rparr>"
  have "config ?u = 0" "mode ?u 0 AND 1 \<noteq> 0"
    using assms by simp_all
  from gptm_tick_oneshot [OF this, of now scale 0]
  obtain s' where s': "gptm_timer_fire now scale s 0 = Inr s'"
      "control s' = control s AND NOT 1" "state s' = state s OR 1"
      "timer s' = (timer s)(0 := None)" "tick s' = tick s" "config s' = 0" "mode s' = mode s"
    by (auto simp: gptm_timer_fire_def)
  let ?w = "s'\<lparr>timer := (timer s')(n := None)\<rparr>"
  have "config ?w = 0" "mode ?w 0 AND 1 \<noteq> 0"
    using assms s' by simp_all
  from gptm_tick_oneshot [OF this, of now' scale n]
  obtain t where t: "gptm_timer_fire now' scale s' n = Inr t" "timer t = timer ?w"
    by (auto simp: gptm_timer_fire_def)
  have t0: "timer t 0 = None"
    using t(2) s'(4) by simp
  have w: "gptm_write now' scale s' offset v = Inr t' \<and> timer t' 0 \<noteq> None
            \<longrightarrow> offset = 0x0c \<and> bit v 0"
    using gptm_write_arms_A [of now' scale s' offset v t'] s'(4) by simp
  have "\<not> bit (control s') 0"
    unfolding s'(2) by (rule bit0_and_not_1)
  with s' t(1) t0 w show ?thesis
    by simp
qed

theorem gptm_one_shot_fires_once_witness:
  "config gptm_oneshot_armed = 0 \<and> mode gptm_oneshot_armed 0 AND 1 \<noteq> 0
   \<and> (\<exists>s' t'. gptm_timer_fire 1500 5 gptm_oneshot_armed 0 = Inr s'
         \<and> control s' = 0 \<and> state s' = 1 \<and> tick s' 0 = 1500 \<and> timer s' 0 = None
         \<and> gptm_write 2000 5 s' 0x0c 1 = Inr t' \<and> timer t' 0 = Some 2500)"
proof -
  let ?U = "gptm_update_irq
    (gptm_oneshot_armed\<lparr>timer := (timer gptm_oneshot_armed)(0 := None), state := 1, control := 0\<rparr>)"
  let ?T = "gptm_update_irq
    (?U\<lparr>control := 1, tick := (tick ?U)(0 := 2500), timer := (timer ?U)(0 := Some 2500)\<rparr>)"
  have h: "config gptm_oneshot_armed = 0" "mode gptm_oneshot_armed 0 AND 1 \<noteq> 0"
    by (simp_all add: gptm_oneshot_armed_def gptm_zero_def)
  have e1: "gptm_timer_fire 1500 5 gptm_oneshot_armed 0 = Inr ?U"
    by (simp add: gptm_timer_fire_def gptm_tick_def bind_err_def Let_def gptm_update_irq_def
        gptm_oneshot_armed_def gptm_zero_def)
  have e2: "gptm_write 2000 5 ?U 0x0c 1 = Inr ?T"
    by (simp add: gptm_write_def gptm_reload_def bind_err_def Let_def gptm_update_irq_def
        gptm_oneshot_armed_def gptm_zero_def)
  have f: "control ?U = 0" "state ?U = 1" "tick ?U 0 = 1500" "timer ?T 0 = Some 2500"
    by (simp_all add: gptm_update_irq_def gptm_oneshot_armed_def gptm_zero_def)
  from gptm_one_shot_fires_once [OF h, of 1500 5 1500 0 "0x0c" 1 ?T]
  obtain s' where s': "gptm_timer_fire 1500 5 gptm_oneshot_armed 0 = Inr s'" "timer s' 0 = None"
    by blast
  from s'(1) e1 have "s' = ?U" by simp
  with s' e2 f h show ?thesis
    by blast
qed

lemma halves_combine:
  "(ucast (v AND 0xffff) :: u32) OR push_bit 16 (ucast (drop_bit 16 v)) = ucast v" for v :: u64
proof -
  have m: "v AND 0xffff = take_bit 16 v"
    using take_bit_eq_mask [of 16 v] by (simp add: mask_eq_exp_minus_1)
  show ?thesis
    unfolding m
    by (rule bit_word_eqI) (auto simp: bit_simps)
qed

lemma sint_deadline:
  fixes now :: u64 and count :: u32 and scale :: u32
  assumes "- (2 ^ 63) \<le> sint now + uint count * sint scale"
      and "sint now + uint count * sint scale < 2 ^ 63"
  shows "sint (now + ucast count * scast scale) = sint now + uint count * sint scale"
proof -
  have c: "sint (ucast count :: u64) = uint count"
  proof -
    have "uint count < 2 ^ 32" using uint_lt2p [of count] by simp
    then have "uint count < 2 ^ 63" by simp
    moreover have "- (2 ^ 63) \<le> uint count"
      by (rule order_trans [OF _ uint_nonnegative]) simp
    ultimately show ?thesis
      by (simp add: signed_ucast_eq signed_take_bit_int_eq_self)
  qed
  have s: "sint (scast scale :: u64) = sint scale"
    by (rule sint_up_scast) (simp add: is_up)
  have b1: "uint count < 2 ^ 32" using uint_lt2p [of count] by simp
  have b0: "0 \<le> uint count" by simp
  have s1: "sint scale < 2 ^ 31" using sint_lt [of scale] by simp
  have s0: "- (2 ^ 31) \<le> sint scale" using sint_ge [of scale] by simp
  have "\<bar>uint count * sint scale\<bar> \<le> (2 ^ 32 - 1) * 2 ^ 31"
  proof -
    have "\<bar>uint count * sint scale\<bar> = uint count * \<bar>sint scale\<bar>"
      using b0 by (simp add: abs_mult)
    also have "\<dots> \<le> (2 ^ 32 - 1) * 2 ^ 31"
      using b0 b1 s0 s1 by (intro mult_mono) auto
    finally show ?thesis .
  qed
  then have pb: "- (2 ^ 63) \<le> uint count * sint scale" "uint count * sint scale < 2 ^ 63"
    by simp_all
  have p: "sint (ucast count * scast scale :: u64) = uint count * sint scale"
    using pb by (simp add: sint_word_ariths c s signed_take_bit_int_eq_self)
  define prod :: u64 where "prod = ucast count * scast scale"
  have "sint (now + prod) = signed_take_bit 63 (sint now + sint prod)"
    by (simp add: sint_word_ariths)
  also have "\<dots> = sint now + uint count * sint scale"
    using assms p by (simp add: prod_def signed_take_bit_int_eq_self)
  finally show ?thesis
    by (simp add: prod_def)
qed

lemma gptm_write_tailr:
  assumes "config s < 4"
  shows "\<exists>s1. gptm_write now scale s 0x28 L = Inr s1 \<and> gptm_load32 s1 = ucast L
     \<and> config s1 = config s \<and> control s1 = control s \<and> rtc s1 = rtc s \<and> match s1 = match s"
  using assms
  by (simp add: gptm_write_def bind_err_def Let_def gptm_update_irq_def gptm_load32_def
      halves_combine)

lemma gptm_write_ctl_enable_countdown:
  assumes "config s = 0" and "\<not> bit (control s) 0" and "bit c 0"
  shows "\<exists>s2. gptm_write now scale s 0x0c c = Inr s2
     \<and> timer s2 0 = Some (now + ucast (gptm_load32 s) * scast scale)
     \<and> tick s2 0 = now + ucast (gptm_load32 s) * scast scale
     \<and> control s2 = ucast c"
  using assms
  by (simp add: gptm_write_def gptm_reload_def bind_err_def Let_def gptm_update_irq_def
      gptm_load32_def and_1_bit0 bit_xor_iff bit_ucast_iff)

text \<open>
  C2, as amended. In 32-bit countdown mode (\<open>config = 0\<close>): after the combined load value
  has been written (a write of \<open>L\<close> to offset 0x28 stores its low 32 bits as
  \<open>load[0] | load[1] << 16\<close>) and the timer is enabled by a 0-to-1 transition of control bit
  0 at time \<open>now\<close>, timer A is scheduled at exactly \<open>now + load * system_clock_scale\<close>, in
  64-bit arithmetic; when that sum fits the signed 64-bit range, it is the exact integer.
\<close>

theorem gptm_countdown_first_deadline:
  assumes "config s = 0" and "\<not> bit (control s) 0" and "bit c 0"
  shows "\<exists>s1 s2. gptm_write now0 scale s 0x28 L = Inr s1
       \<and> gptm_write now scale s1 0x0c c = Inr s2
       \<and> gptm_load32 s1 = ucast L
       \<and> deadline 0 s2 = Some (now + ucast (ucast L :: u32) * scast scale)
       \<and> tick s2 0 = now + ucast (ucast L :: u32) * scast scale
       \<and> (- (2 ^ 63) \<le> sint now + uint (ucast L :: u32) * sint scale
            \<and> sint now + uint (ucast L :: u32) * sint scale < 2 ^ 63
          \<longrightarrow> sint (now + ucast (ucast L :: u32) * scast scale)
              = sint now + uint (ucast L :: u32) * sint scale)"
proof -
  have "config s < 4" using assms(1) by simp
  from gptm_write_tailr [OF this, of now0 scale L]
  obtain s1 where s1: "gptm_write now0 scale s 0x28 L = Inr s1" "gptm_load32 s1 = ucast L"
      "config s1 = config s" "control s1 = control s"
    by blast
  have "config s1 = 0" "\<not> bit (control s1) 0"
    using s1 assms by simp_all
  from gptm_write_ctl_enable_countdown [OF this assms(3), of now scale]
  obtain s2 where s2: "gptm_write now scale s1 0x0c c = Inr s2"
      "timer s2 0 = Some (now + ucast (gptm_load32 s1) * scast scale)"
      "tick s2 0 = now + ucast (gptm_load32 s1) * scast scale"
    by blast
  show ?thesis
    using s1(1,2) s2 sint_deadline [of now "ucast L" scale]
    by (auto simp: deadline_def)
qed

theorem gptm_countdown_first_deadline_witness:
  "config gptm_zero = 0 \<and> \<not> bit (control gptm_zero) 0 \<and> bit (1 :: u64) 0
   \<and> (\<exists>s1 s2. gptm_write 0 5 gptm_zero 0x28 3 = Inr s1
         \<and> gptm_write 100 5 s1 0x0c 1 = Inr s2
         \<and> deadline 0 s2 = Some 115)"
proof -
  have h: "config gptm_zero = 0" "\<not> bit (control gptm_zero) 0" "bit (1 :: u64) 0"
    by (simp_all add: gptm_zero_def)
  from gptm_countdown_first_deadline [OF h, of 0 5 3 100]
  show ?thesis
    using h by auto
qed

text \<open>
  The claim as stated, for every \<open>config < 4\<close>, fails in RTC mode (\<open>config = 1\<close>): with load
  3 written, scale 5 and the timer enabled at time 100, the deadline is one second after
  100 and not 115.
\<close>

theorem gptm_first_deadline_rtc_counterexample:
  "field_of config (gptm_run 5 gptm_zero rtc_enable_events) = Some 1
   \<and> field_of gptm_load32 (gptm_run 5 gptm_zero rtc_enable_events) = Some 3
   \<and> field_of (deadline 0) (gptm_run 5 gptm_zero rtc_enable_events) = Some (Some 1000000100)
   \<and> field_of (deadline 0) (gptm_run 5 gptm_zero rtc_enable_events) \<noteq> Some (Some (100 + 3 * 5))"
  by (simp add: rtc_enable_events_def gptm_write_def gptm_reload_def bind_err_def Let_def
      gptm_update_irq_def gptm_zero_def field_of_def deadline_def gptm_load32_def
      get_ticks_per_sec_def)

lemma rtc_step_unat:
  fixes r M :: u32
  assumes "r \<le> M"
  shows "unat (if r + 1 > M then 0 else r + 1) = (unat r + 1) mod (unat M + 1)"
    and "((if r + 1 > M then 0 else r + 1) = 0) = (r = M)"
proof -
  have le: "unat r \<le> unat M" using assms by (simp add: word_le_nat_alt)
  have bM: "unat M < 2 ^ 32" using unsigned_less [of M] by simp
  have u1: "unat (r + 1) = (unat r + 1) mod 2 ^ 32"
    by (simp add: unat_word_ariths)
  have gt: "(r + 1 > M) = (unat M < (unat r + 1) mod 2 ^ 32)"
    by (simp add: word_less_nat_alt u1)
  show "unat (if r + 1 > M then 0 else r + 1) = (unat r + 1) mod (unat M + 1)"
  proof (cases "unat r < unat M")
    case True
    then have "(unat r + 1) mod 2 ^ 32 = unat r + 1" using bM by simp
    with True show ?thesis by (simp add: gt u1)
  next
    case False
    with le have e: "unat r = unat M" by simp
    show ?thesis
    proof (cases "unat M + 1 < 2 ^ 32")
      case True
      then show ?thesis using e by (simp add: gt u1)
    next
      case False
      with bM have "unat M + 1 = 2 ^ 32" by simp
      then show ?thesis using e by (simp add: gt u1)
    qed
  qed
  show "((if r + 1 > M then 0 else r + 1) = 0) = (r = M)"
  proof (cases "unat r < unat M")
    case True
    then have m: "(unat r + 1) mod 2 ^ 32 = unat r + 1" using bM by simp
    have "r \<noteq> M" using True by auto
    moreover have "r + 1 \<noteq> 0"
      using u1 m by (metis Suc_eq_plus1 nat.simps(3) unat_0)
    ultimately show ?thesis using True m by (simp add: gt)
  next
    case False
    with le have e: "unat r = unat M" by simp
    then have rM: "r = M" by (simp add: word_unat_eq_iff)
    show ?thesis
    proof (cases "unat M + 1 < 2 ^ 32")
      case True
      then have "M < r + 1" unfolding gt using e by simp
      then show ?thesis using rM by simp
    next
      case False
      with bM have "unat M + 1 = 2 ^ 32" by simp
      then have "unat (r + 1) = 0" using e u1 by simp
      then have "r + 1 = 0" by (simp add: unat_eq_0)
      then show ?thesis using rM by simp
    qed
  qed
qed

lemma gptm_timer_fire_rtc:
  assumes "config s = 1"
  shows "\<exists>s'. gptm_timer_fire now scale s 0 = Inr s'
     \<and> config s' = 1 \<and> match s' = match s \<and> control s' = control s
     \<and> rtc s' = (if rtc s + 1 > (match s 0 OR push_bit 16 (match s 1)) then 0 else rtc s + 1)
     \<and> state s' = (if rtc s' = 0 then state s OR 8 else state s)
     \<and> tick s' 0 = tick s 0 + get_ticks_per_sec
     \<and> timer s' 0 = Some (tick s 0 + get_ticks_per_sec)"
  using assms
  by (simp add: gptm_timer_fire_def gptm_tick_def gptm_reload_def bind_err_def Let_def
      gptm_update_irq_def)

lemma gptm_fires_rtc:
  assumes "config s = 1" and "rtc s \<le> match s 0 OR push_bit 16 (match s 1)"
  shows "\<exists>s'. gptm_fires now scale s k = Inr s'
     \<and> config s' = 1 \<and> match s' = match s \<and> control s' = control s
     \<and> rtc s' \<le> match s 0 OR push_bit 16 (match s 1)
     \<and> unat (rtc s') = (unat (rtc s) + k) mod (unat (match s 0 OR push_bit 16 (match s 1)) + 1)
     \<and> tick s' 0 = tick s 0 + of_nat k * get_ticks_per_sec"
proof (induction k)
  case 0
  have "unat (rtc s) \<le> unat (match s 0 OR push_bit 16 (match s 1))"
    using assms(2) by (simp add: word_le_nat_alt)
  then show ?case using assms by simp
next
  case (Suc k)
  let ?M = "match s 0 OR push_bit 16 (match s 1)"
  from Suc obtain s' where s': "gptm_fires now scale s k = Inr s'" "config s' = 1"
      "match s' = match s" "control s' = control s" "rtc s' \<le> ?M"
      "unat (rtc s') = (unat (rtc s) + k) mod (unat ?M + 1)"
      "tick s' 0 = tick s 0 + of_nat k * get_ticks_per_sec"
    by blast
  from gptm_timer_fire_rtc [OF s'(2), of now scale] obtain s'' where
    s'': "gptm_timer_fire now scale s' 0 = Inr s''" "config s'' = 1" "match s'' = match s'"
      "control s'' = control s'"
      "rtc s'' = (if rtc s' + 1 > (match s' 0 OR push_bit 16 (match s' 1)) then 0 else rtc s' + 1)"
      "tick s'' 0 = tick s' 0 + get_ticks_per_sec"
    by blast
  have r: "rtc s'' = (if rtc s' + 1 > ?M then 0 else rtc s' + 1)"
    using s''(5) s'(3) by simp
  have u: "unat (rtc s'') = (unat (rtc s') + 1) mod (unat ?M + 1)"
    unfolding r by (rule rtc_step_unat(1) [OF s'(5)])
  have u2: "unat (rtc s'') = (unat (rtc s) + Suc k) mod (unat ?M + 1)"
    unfolding u s'(6) by (simp add: mod_simps)
  have "unat (rtc s'') < unat ?M + 1" unfolding u2 by simp
  then have le: "rtc s'' \<le> ?M" by (simp add: word_le_nat_alt)
  have t: "tick s'' 0 = tick s 0 + of_nat (Suc k) * get_ticks_per_sec"
    using s''(6) s'(7) by (simp add: algebra_simps)
  show ?case
    using s'(1) s'' s'(3,4) le u2 t by (simp add: bind_err_def)
qed

lemma rtc_step_eq:
  fixes r M :: u32
  assumes "r \<le> M"
  shows "(if r + 1 > M then 0 else r + 1) = (if r = M then 0 else r + 1)"
  using rtc_step_unat(2) [OF assms] by (auto split: if_splits)

lemma gptm_write_tamatchr:
  assumes "config s < 4"
  shows "\<exists>s1. gptm_write now scale s 0x30 Mv = Inr s1 \<and> match s1 0 OR push_bit 16 (match s1 1) = ucast Mv
     \<and> config s1 = config s \<and> control s1 = control s \<and> rtc s1 = rtc s \<and> state s1 = state s"
  using assms
  by (simp add: gptm_write_def bind_err_def Let_def gptm_update_irq_def halves_combine)

lemma gptm_write_ctl_rtc:
  assumes "config s = 1"
  shows "\<exists>s2. gptm_write now scale s 0x0c c = Inr s2 \<and> config s2 = 1 \<and> match s2 = match s
     \<and> rtc s2 = rtc s \<and> state s2 = state s
     \<and> (\<not> bit (control s) 0 \<and> bit c 0
          \<longrightarrow> timer s2 0 = Some (now + get_ticks_per_sec) \<and> tick s2 0 = now + get_ticks_per_sec)"
  using assms
  by (simp add: gptm_write_def gptm_reload_def gptm_stop_def bind_err_def Let_def
      gptm_update_irq_def and_1_bit0 bit_xor_iff bit_ucast_iff)

text \<open>
  C3, as amended. In RTC mode (\<open>config = 1\<close>), when a match value \<open>M\<close> is written and the
  timer enabled while \<open>rtc \<le> M\<close> (as on a fresh device, where \<open>rtc = 0\<close>): the timer is
  scheduled one second ahead and re-armed one second after each expiry; after \<open>k\<close> expiries
  \<open>rtc\<close> is \<open>(rtc0 + k) mod (M + 1)\<close> and so stays in \<open>[0, M]\<close>; each expiry increments \<open>rtc\<close>
  and wraps it from \<open>M\<close> to 0, and it sets the RTC-match bit (bit 3 of the raw status) exactly
  when it wraps, that is at the expiries number \<open>j\<close> with \<open>(rtc0 + j) mod (M + 1) = 0\<close>: every
  \<open>M + 1\<close> one-second ticks.
\<close>

theorem gptm_rtc_match_period:
  assumes "config s0 = 1" and "rtc s0 \<le> ucast Mv" and "\<not> bit (control s0) 0" and "bit c 0"
  shows "\<exists>s1 s2 s' s''.
       gptm_write now0 scale s0 0x30 Mv = Inr s1
     \<and> gptm_write now scale s1 0x0c c = Inr s2
     \<and> deadline 0 s2 = Some (now + get_ticks_per_sec)
     \<and> gptm_fires now' scale s2 k = Inr s'
     \<and> gptm_timer_fire now' scale s' 0 = Inr s''
     \<and> gptm_match32 s' = ucast Mv
     \<and> unat (rtc s') = (unat (rtc s0) + k) mod (unat (ucast Mv :: u32) + 1)
     \<and> rtc s' \<le> ucast Mv
     \<and> rtc s'' = (if rtc s' = ucast Mv then 0 else rtc s' + 1)
     \<and> state s'' = (if rtc s' = ucast Mv then state s' OR 8 else state s')
     \<and> ((rtc s' = ucast Mv) = ((unat (rtc s0) + k + 1) mod (unat (ucast Mv :: u32) + 1) = 0))
     \<and> deadline 0 s'' = Some (now + of_nat (k + 2) * get_ticks_per_sec)"
proof -
  let ?M = "ucast Mv :: u32"
  have "config s0 < 4" using assms(1) by simp
  from gptm_write_tamatchr [OF this, of now0 scale Mv]
  obtain s1 where s1: "gptm_write now0 scale s0 0x30 Mv = Inr s1"
      "match s1 0 OR push_bit 16 (match s1 1) = ?M"
      "config s1 = config s0" "control s1 = control s0" "rtc s1 = rtc s0"
    by blast
  have c1: "config s1 = 1" using s1(3) assms(1) by simp
  from gptm_write_ctl_rtc [OF c1, of now scale c]
  obtain s2 where s2: "gptm_write now scale s1 0x0c c = Inr s2" "config s2 = 1"
      "match s2 = match s1" "rtc s2 = rtc s1"
      "timer s2 0 = Some (now + get_ticks_per_sec)" "tick s2 0 = now + get_ticks_per_sec"
    using assms(3,4) s1(4) by auto
  have m2: "match s2 0 OR push_bit 16 (match s2 1) = ?M"
    using s2(3) s1(2) by simp
  have r2: "rtc s2 \<le> match s2 0 OR push_bit 16 (match s2 1)"
    using assms(2) s2(4) s1(5) m2 by simp
  from gptm_fires_rtc [OF s2(2) r2, of now' scale k]
  obtain s' where s': "gptm_fires now' scale s2 k = Inr s'" "config s' = 1"
      "match s' = match s2" "rtc s' \<le> ?M"
      "unat (rtc s') = (unat (rtc s2) + k) mod (unat ?M + 1)"
      "tick s' 0 = tick s2 0 + of_nat k * get_ticks_per_sec"
    unfolding m2 by blast
  from gptm_timer_fire_rtc [OF s'(2), of now' scale]
  obtain s'' where s'': "gptm_timer_fire now' scale s' 0 = Inr s''"
      "rtc s'' = (if rtc s' + 1 > (match s' 0 OR push_bit 16 (match s' 1)) then 0 else rtc s' + 1)"
      "state s'' = (if rtc s'' = 0 then state s' OR 8 else state s')"
      "timer s'' 0 = Some (tick s' 0 + get_ticks_per_sec)"
    by blast
  have m': "match s' 0 OR push_bit 16 (match s' 1) = ?M"
    using s'(3) m2 by simp
  have rr: "rtc s'' = (if rtc s' = ?M then 0 else rtc s' + 1)"
    using s''(2) rtc_step_eq [OF s'(4)] unfolding m' by simp
  have z: "(rtc s'' = 0) = (rtc s' = ?M)"
    using s''(2) rtc_step_unat(2) [OF s'(4)] unfolding m' by simp
  have st: "state s'' = (if rtc s' = ?M then state s' OR 8 else state s')"
    using s''(3) z by simp
  have "unat (rtc s'') = (unat (rtc s') + 1) mod (unat ?M + 1)"
    using s''(2) rtc_step_unat(1) [OF s'(4)] unfolding m' by simp
  also have "\<dots> = (unat (rtc s0) + k + 1) mod (unat ?M + 1)"
    unfolding s'(5) s2(4) s1(5) by (simp add: mod_simps)
  finally have u: "unat (rtc s'') = (unat (rtc s0) + k + 1) mod (unat ?M + 1)" .
  have per: "(rtc s' = ?M) = ((unat (rtc s0) + k + 1) mod (unat ?M + 1) = 0)"
    using z u by (simp add: unat_eq_0 [symmetric])
  have dl: "timer s'' 0 = Some (now + of_nat (k + 2) * get_ticks_per_sec)"
    using s''(4) s'(6) s2(6) by (simp add: algebra_simps)
  have u': "unat (rtc s') = (unat (rtc s0) + k) mod (unat ?M + 1)"
    using s'(5) s2(4) s1(5) by simp
  show ?thesis
    using s1(1) s2(1) s2(5) s'(1) s''(1) m' u' s'(4) rr st per dl
    by (simp add: deadline_def gptm_match32_def)
qed

theorem gptm_rtc_match_period_witness:
  "config (gptm_zero\<lparr>config := 1\<rparr>) = 1 \<and> rtc (gptm_zero\<lparr>config := 1\<rparr>) \<le> ucast (2 :: u64)
   \<and> \<not> bit (control (gptm_zero\<lparr>config := 1\<rparr>)) 0 \<and> bit (1 :: u64) 0
   \<and> (\<exists>s1 s2 s' s''.
         gptm_write 0 5 (gptm_zero\<lparr>config := 1\<rparr>) 0x30 2 = Inr s1
       \<and> gptm_write 100 5 s1 0x0c 1 = Inr s2
       \<and> gptm_fires 0 5 s2 2 = Inr s'
       \<and> gptm_timer_fire 0 5 s' 0 = Inr s''
       \<and> rtc s' = 2 \<and> rtc s'' = 0 \<and> state s'' = state s' OR 8
       \<and> deadline 0 s'' = Some 4000000100)"
proof -
  let ?s = "gptm_zero\<lparr>config := 1\<rparr>"
  have h: "config ?s = 1" "rtc ?s \<le> ucast (2 :: u64)" "\<not> bit (control ?s) 0" "bit (1 :: u64) 0"
    by (simp_all add: gptm_zero_def)
  have r0: "rtc ?s = 0"
    by (simp add: gptm_zero_def)
  from gptm_rtc_match_period [OF h, of 0 5 100 0 2]
  show ?thesis
    using h unfolding r0 by (auto simp: get_ticks_per_sec_def)
qed

text \<open>
  The claim as stated fails when the match value is written below the current counter: a
  guest that ran the RTC for five ticks with match 10, stopped it, wrote match 2 and enabled
  it again has \<open>rtc = 5\<close>, outside \<open>[0, 2]\<close>, and the next tick already wraps the counter and
  sets the RTC-match bit, after one tick instead of three.
\<close>

theorem gptm_rtc_rematch_counterexample:
  "field_of config (gptm_run 5 gptm_zero rtc_rematch_events) = Some 1
   \<and> field_of gptm_match32 (gptm_run 5 gptm_zero rtc_rematch_events) = Some 2
   \<and> field_of rtc (gptm_run 5 gptm_zero rtc_rematch_events) = Some 5
   \<and> \<not> (5 :: u32) \<le> 2
   \<and> field_of state (gptm_run 5 gptm_zero rtc_rematch_events) = Some 0
   \<and> field_of state (gptm_run 5 gptm_zero (rtc_rematch_events @ [Fire 0])) = Some 8
   \<and> field_of rtc (gptm_run 5 gptm_zero (rtc_rematch_events @ [Fire 0])) = Some 0"
  by (simp add: rtc_rematch_events_def gptm_write_def gptm_reload_def gptm_stop_def
      gptm_timer_fire_def gptm_tick_def bind_err_def Let_def gptm_update_irq_def gptm_zero_def
      field_of_def gptm_match32_def get_ticks_per_sec_def)

section \<open>Interrupt lines: proofs\<close>

lemma bind_err_Inr_post:
  "bind_err r (\<lambda>x. Inr (f x)) = Inr s' \<Longrightarrow> \<exists>x. s' = f x"
  by (cases r) (auto simp: bind_err_def)

lemma gptm_irq_ok_update: "gptm_irq_ok (gptm_update_irq s)"
  by (simp add: gptm_irq_ok_def gptm_update_irq_def)

lemma gptm_write_irq_ok: "gptm_write now scale s offset v = Inr s' \<Longrightarrow> gptm_irq_ok s'"
  unfolding gptm_write_def
  by (drule bind_err_Inr_post) (auto simp: gptm_irq_ok_update)

lemma gptm_tick_irq_ok: "gptm_tick now scale s n = Inr s' \<Longrightarrow> gptm_irq_ok s'"
  unfolding gptm_tick_def
  by (drule bind_err_Inr_post) (auto simp: gptm_irq_ok_update)

lemma ssys_write_irq_ok: "ssys_irq_ok (ssys_write d s offset v)"
  unfolding ssys_write_def ssys_irq_ok_def ssys_update_def by simp

lemma i2c_irq_ok_update: "i2c_irq_ok (stm32_i2c_update s)"
  by (simp add: i2c_irq_ok_def stm32_i2c_update_def)

lemma stm32_i2c_write_irq_ok: "stm32_i2c_write s offset v = Inr s' \<Longrightarrow> i2c_irq_ok s'"
  unfolding stm32_i2c_write_def
  by (drule bind_err_Inr_post) (auto simp: i2c_irq_ok_update)

lemma adc_irq_ok_update: "adc_irq_ok (stm32_adc_update s)"
  by (simp add: adc_irq_ok_def stm32_adc_update_def)

lemma adc_irq_ok_cong:
  "adc_irq_ok s \<Longrightarrow> ris s' = ris s \<Longrightarrow> im s' = im s \<Longrightarrow> adc_irq s' = adc_irq s \<Longrightarrow> adc_irq_ok s'"
  by (simp add: adc_irq_ok_def)

lemma stm32_adc_write_irq_ok:
  assumes "adc_irq_ok s" and "stm32_adc_write s offset v = Inr s'"
  shows "adc_irq_ok s'"
proof (cases "offset \<ge> 0x40 \<and> offset < 0xc0 \<and> offset AND 0x1f = 0x00")
  case True
  then have c: "(offset \<ge> 0x40 \<and> offset < 0xc0 \<and> offset AND 0x1f = 0x00) = True"
    by simp
  have "stm32_adc_write s offset v
    = Inr (s\<lparr>ssmux := (ssmux s)(unat (drop_bit 5 (offset - 0x40)) := ucast (v AND 0x33333333))\<rparr>)"
    unfolding stm32_adc_write_def Let_def by (simp only: c if_True)
  with assms(2) have "s' = s\<lparr>ssmux := (ssmux s)(unat (drop_bit 5 (offset - 0x40)) := ucast (v AND 0x33333333))\<rparr>"
    by simp
  then show ?thesis
    by (intro adc_irq_ok_cong [OF assms(1)]) simp_all
next
  case A: False
  then have c1: "(offset \<ge> 0x40 \<and> offset < 0xc0 \<and> offset AND 0x1f = 0x00) = False"
    by simp
  show ?thesis
  proof (cases "offset \<ge> 0x40 \<and> offset < 0xc0 \<and> offset AND 0x1f = 0x04")
    case True
    then have c2: "(offset \<ge> 0x40 \<and> offset < 0xc0 \<and> offset AND 0x1f = 0x04) = True"
      by simp
    have "stm32_adc_write s offset v
      = (if v \<noteq> 6 then Inl (Unimplemented_sequence v)
         else Inr (s\<lparr>ssctl := (ssctl s)(unat (drop_bit 5 (offset - 0x40)) := ucast v)\<rparr>))"
      unfolding stm32_adc_write_def Let_def by (simp only: c1 c2 if_True if_False)
    with assms(2) have "s' = s\<lparr>ssctl := (ssctl s)(unat (drop_bit 5 (offset - 0x40)) := ucast v)\<rparr>"
      by (simp split: if_splits)
    then show ?thesis
      by (intro adc_irq_ok_cong [OF assms(1)]) simp_all
  next
    case False
    then have c2: "(offset \<ge> 0x40 \<and> offset < 0xc0 \<and> offset AND 0x1f = 0x04) = False"
      by simp
    from assms(2) have "\<exists>x. s' = stm32_adc_update x"
      unfolding stm32_adc_write_def Let_def
      by (simp only: c1 c2 if_False) (erule bind_err_Inr_post)
    then show ?thesis
      by (auto simp: adc_irq_ok_update)
  qed
qed

lemma adc_trigger_step_irq_ok: "adc_irq_ok s \<Longrightarrow> adc_irq_ok (adc_trigger_step s n)"
  unfolding adc_trigger_step_def Let_def
  by (simp only: adc_irq_ok_update split: if_split) simp

lemma stm32_adc_trigger_irq_ok: "adc_irq_ok s \<Longrightarrow> adc_irq_ok (stm32_adc_trigger s)"
  by (simp add: stm32_adc_trigger_def adc_trigger_step_irq_ok)

lemma adc_fresh_irq_ok: "adc_irq_ok adc_fresh"
  by (simp add: adc_irq_ok_def adc_fresh_def stm32_adc_reset_def)

text \<open>
  C5. After a register write or a timer expiry completes, every interrupt output line has
  the level \<open>(raw status AND mask) \<noteq> 0\<close> of the state the mutation leaves: for the timer
  module (\<open>state\<close>, \<open>mask\<close>), the system controller (\<open>int_status\<close>, \<open>int_mask\<close>) and the I2C
  master (\<open>mris\<close>, \<open>mimr\<close>) the write and the expiry recompute the line; for the four lines
  of the converter, line \<open>n\<close> follows bit \<open>n\<close> of \<open>ris AND im\<close>: this holds after
  initialisation, and every register write and every trigger pulse keeps it.
\<close>

theorem irq_level_follows_status:
  "(gptm_write now scale g o1 v1 = Inr g' \<longrightarrow> gptm_irq g' = (state g' AND gptm_mask g' \<noteq> 0))
   \<and> (gptm_tick now scale g n = Inr g'' \<longrightarrow> gptm_irq g'' = (state g'' AND gptm_mask g'' \<noteq> 0))
   \<and> ssys_irq (ssys_write d y o2 v2)
       = (int_status (ssys_write d y o2 v2) AND int_mask (ssys_write d y o2 v2) \<noteq> 0)
   \<and> (stm32_i2c_write i o3 v3 = Inr i' \<longrightarrow> i2c_irq i' = (mris i' AND mimr i' \<noteq> 0))
   \<and> adc_irq_ok adc_fresh
   \<and> (adc_irq_ok a \<and> stm32_adc_write a o4 v4 = Inr a' \<longrightarrow> adc_irq_ok a')
   \<and> (adc_irq_ok a \<longrightarrow> adc_irq_ok (stm32_adc_trigger a))"
  using gptm_write_irq_ok [of now scale g o1 v1 g'] gptm_tick_irq_ok [of now scale g n g'']
    ssys_write_irq_ok [of d y o2 v2] stm32_i2c_write_irq_ok [of i o3 v3 i']
    stm32_adc_write_irq_ok [of a o4 v4 a'] stm32_adc_trigger_irq_ok [of a] adc_fresh_irq_ok
  unfolding gptm_irq_ok_def ssys_irq_ok_def i2c_irq_ok_def
  by blast

theorem irq_level_follows_status_witness:
  "(\<exists>g'. gptm_write 0 5 (gptm_zero\<lparr>state := 1\<rparr>) 0x18 1 = Inr g'
        \<and> gptm_irq g' = (state g' AND gptm_mask g' \<noteq> 0) \<and> gptm_irq g')
   \<and> (\<exists>g''. gptm_tick 0 5 (gptm_zero\<lparr>state := 1\<rparr>) 0 = Inr g''
        \<and> gptm_irq g'' = (state g'' AND gptm_mask g'' \<noteq> 0))
   \<and> (\<exists>i'. stm32_i2c_write (i2c_fresh None []) 0x10 0 = Inr i'
        \<and> i2c_irq i' = (mris i' AND mimr i' \<noteq> 0))
   \<and> adc_irq_ok adc_fresh
   \<and> (\<exists>a'. stm32_adc_write adc_fresh 0x08 1 = Inr a' \<and> adc_irq_ok a')
   \<and> adc_irq_ok (stm32_adc_trigger adc_fresh)"
proof -
  let ?G = "gptm_zero\<lparr>state := 1\<rparr>"
  obtain g' where g': "gptm_write 0 5 ?G 0x18 1 = Inr g'" "gptm_irq g'"
    by (simp add: gptm_write_def bind_err_def gptm_update_irq_def gptm_zero_def)
  obtain g'' where g'': "gptm_tick 0 5 ?G 0 = Inr g''"
    by (simp add: gptm_tick_def gptm_reload_def bind_err_def Let_def gptm_zero_def)
  obtain i' where i': "stm32_i2c_write (i2c_fresh None []) 0x10 0 = Inr i'"
    by (simp add: stm32_i2c_write_def bind_err_def)
  obtain a' where a': "stm32_adc_write adc_fresh 0x08 1 = Inr a'"
    by (simp add: stm32_adc_write_def bind_err_def)
  from irq_level_follows_status [where now = 0 and scale = 5 and g = ?G and ?o1.0 = "0x18"
      and ?v1.0 = 1 and g' = g' and n = 0 and g'' = g'' and i = "i2c_fresh None []"
      and ?o3.0 = "0x10" and ?v3.0 = 0 and i' = i' and a = adc_fresh and ?o4.0 = "0x08"
      and ?v4.0 = 1 and a' = a']
  show ?thesis
    using g' g'' i' a' by auto
qed

section \<open>I2C controller: proofs\<close>

lemma flag_tests:
  fixes w :: "'a::len word"
  shows "(w AND 0x02 = 0) = (\<not> bit w 1)"
    and "(w AND 0x04 = 0) = (\<not> bit w 2)"
    and "(w AND 0x10 = 0) = (\<not> bit w 4)"
    and "(w AND 0x40 = 0) = (\<not> bit w 6)"
  using and_exp_eq_0_iff_not_bit [of w 1] and_exp_eq_0_iff_not_bit [of w 2]
    and_exp_eq_0_iff_not_bit [of w 4] and_exp_eq_0_iff_not_bit [of w 6]
  by simp_all

lemmas i2c_flags = STELLARIS_I2C_MCS_ERROR_def STELLARIS_I2C_MCS_ARBLST_def
  STELLARIS_I2C_MCS_BUSBSY_def

lemma i2c_grab_bus_lost:
  assumes "val AND 2 \<noteq> 0" and "mcs s AND STELLARIS_I2C_MCS_BUSBSY = 0"
    and "holder (bus s) = Some Other_master"
  shows "i2c_grab_bus s val = s\<lparr>bus := bus s, mcs := mcs s OR STELLARIS_I2C_MCS_ARBLST\<rparr>"
  using assms by (simp add: i2c_grab_bus_def i2c_start_transfer_def)

lemma i2c_grab_bus_won:
  assumes "val AND 2 \<noteq> 0" and "mcs s AND STELLARIS_I2C_MCS_BUSBSY = 0"
    and "holder (bus s) = None"
  shows "i2c_grab_bus s val
    = s\<lparr>bus := (bus s)\<lparr>holder := Some This_master,
            bus_log := bus_log (bus s) @ [Start (ucast (drop_bit 1 (msa s))) (msa s AND 1 \<noteq> 0)]\<rparr>,
         mcs := (mcs s AND NOT STELLARIS_I2C_MCS_ARBLST) OR STELLARIS_I2C_MCS_BUSBSY\<rparr>"
  using assms by (simp add: i2c_grab_bus_def i2c_start_transfer_def)

lemma i2c_grab_bus_frame:
  "mdr (i2c_grab_bus s val) = mdr s \<and> mris (i2c_grab_bus s val) = mris s
   \<and> msa (i2c_grab_bus s val) = msa s \<and> mcr (i2c_grab_bus s val) = mcr s
   \<and> mimr (i2c_grab_bus s val) = mimr s
   \<and> rx_data (bus (i2c_grab_bus s val)) = rx_data (bus s)
   \<and> (bus_log (bus (i2c_grab_bus s val)) = bus_log (bus s)
      \<or> bus_log (bus (i2c_grab_bus s val))
          = bus_log (bus s) @ [Start (ucast (drop_bit 1 (msa s))) (msa s AND 1 \<noteq> 0)])"
  by (simp add: i2c_grab_bus_def i2c_start_transfer_def)

lemma i2c_write_mcs_enabled:
  assumes "mcr s AND 0x10 \<noteq> 0"
  shows "stm32_i2c_write s 0x04 val =
    (let s1 = i2c_grab_bus s val in
     if \<not> i2c_bus_busy (bus s1) \<or> mcs s1 AND STELLARIS_I2C_MCS_BUSBSY = 0
     then Inr (stm32_i2c_update (s1\<lparr>mcs := mcs s1 OR STELLARIS_I2C_MCS_ERROR\<rparr>))
     else Inr (stm32_i2c_update
       (i2c_finish (i2c_transfer_byte (s1\<lparr>mcs := mcs s1 AND NOT STELLARIS_I2C_MCS_ERROR\<rparr>) val) val)))"
  using assms by (simp add: stm32_i2c_write_def bind_err_def Let_def)

lemma i2c_arbitration_lost:
  assumes en: "mcr s AND 0x10 \<noteq> 0" and st: "val AND 2 \<noteq> 0"
    and nb: "mcs s AND STELLARIS_I2C_MCS_BUSBSY = 0"
    and oth: "holder (bus s) = Some Other_master"
  shows "\<exists>s'. stm32_i2c_write s 0x04 val = Inr s'
     \<and> mcs s' = (mcs s OR STELLARIS_I2C_MCS_ARBLST) OR STELLARIS_I2C_MCS_ERROR
     \<and> mcs s' AND STELLARIS_I2C_MCS_ARBLST \<noteq> 0
     \<and> mcs s' AND STELLARIS_I2C_MCS_BUSBSY = 0
     \<and> bus s' = bus s \<and> mdr s' = mdr s \<and> mris s' = mris s"
proof -
  have b: "\<not> bit (mcs s) 6"
    using nb by (simp add: i2c_flags flag_tests)
  have "mcs (i2c_grab_bus s val) AND STELLARIS_I2C_MCS_BUSBSY = 0"
    unfolding i2c_grab_bus_lost [OF st nb oth]
    using b by (simp add: i2c_flags flag_tests bit_or_iff)
  then have "stm32_i2c_write s 0x04 val
    = Inr (stm32_i2c_update ((i2c_grab_bus s val)
        \<lparr>mcs := mcs (i2c_grab_bus s val) OR STELLARIS_I2C_MCS_ERROR\<rparr>))"
    unfolding i2c_write_mcs_enabled [OF en] Let_def by simp
  then show ?thesis
    unfolding i2c_grab_bus_lost [OF st nb oth]
    using b by (simp add: stm32_i2c_update_def i2c_flags flag_tests bit_or_iff)
qed

lemma i2c_start_run_stop:
  assumes en: "mcr s AND 0x10 \<noteq> 0"
    and st: "val AND 2 \<noteq> 0" and run: "val AND 1 \<noteq> 0" and stop: "val AND 4 \<noteq> 0"
    and nb: "mcs s AND STELLARIS_I2C_MCS_BUSBSY = 0"
    and idle: "holder (bus s) = None"
  shows "\<exists>s'. stm32_i2c_write s 0x04 val = Inr s'
     \<and> holder (bus s') = None
     \<and> bus_log (bus s') = bus_log (bus s) @
          [Start (ucast (drop_bit 1 (msa s))) (msa s AND 1 \<noteq> 0),
           (if msa s AND 1 \<noteq> 0 then Recv else Send (ucast (mdr s))),
           Finish]
     \<and> mcs s' AND STELLARIS_I2C_MCS_BUSBSY = 0
     \<and> mcs s' AND STELLARIS_I2C_MCS_ERROR = 0
     \<and> mcs s' AND STELLARIS_I2C_MCS_ARBLST = 0
     \<and> mris s' = mris s OR 1"
proof -
  let ?s1 = "i2c_grab_bus s val"
  have held: "i2c_bus_busy (bus ?s1)" "mcs ?s1 AND STELLARIS_I2C_MCS_BUSBSY \<noteq> 0"
    unfolding i2c_grab_bus_won [OF st nb idle]
    by (simp_all add: i2c_bus_busy_def i2c_flags flag_tests bit_or_iff)
  have "stm32_i2c_write s 0x04 val = Inr (stm32_i2c_update
       (i2c_finish (i2c_transfer_byte (?s1\<lparr>mcs := mcs ?s1 AND NOT STELLARIS_I2C_MCS_ERROR\<rparr>) val) val))"
    unfolding i2c_write_mcs_enabled [OF en] Let_def using held by simp
  then show ?thesis
    unfolding i2c_grab_bus_won [OF st nb idle]
    using run stop
    by (auto simp: stm32_i2c_update_def i2c_finish_def i2c_transfer_byte_def Let_def
        i2c_recv_def i2c_send_def i2c_end_transfer_def i2c_flags flag_tests
        bit_or_iff bit_and_iff bit_not_iff split: list.splits)
qed

lemma i2c_not_held_aborts:
  assumes en: "mcr s AND 0x10 \<noteq> 0"
    and nh: "\<not> i2c_bus_busy (bus (i2c_grab_bus s val))
             \<or> mcs (i2c_grab_bus s val) AND STELLARIS_I2C_MCS_BUSBSY = 0"
  shows "\<exists>s'. stm32_i2c_write s 0x04 val = Inr s'
     \<and> mcs s' = mcs (i2c_grab_bus s val) OR STELLARIS_I2C_MCS_ERROR
     \<and> mcs s' AND STELLARIS_I2C_MCS_ERROR \<noteq> 0
     \<and> mdr s' = mdr s \<and> mris s' = mris s
     \<and> rx_data (bus s') = rx_data (bus s)
     \<and> (bus_log (bus s') = bus_log (bus s)
        \<or> bus_log (bus s') = bus_log (bus s) @ [Start (ucast (drop_bit 1 (msa s))) (msa s AND 1 \<noteq> 0)])"
proof -
  have "stm32_i2c_write s 0x04 val
    = Inr (stm32_i2c_update ((i2c_grab_bus s val)
        \<lparr>mcs := mcs (i2c_grab_bus s val) OR STELLARIS_I2C_MCS_ERROR\<rparr>))"
    unfolding i2c_write_mcs_enabled [OF en] Let_def using nh by auto
  then show ?thesis
    using i2c_grab_bus_frame [of s val]
    by (simp add: stm32_i2c_update_def i2c_flags flag_tests bit_or_iff)
qed

text \<open>
  C6, as amended. When the master is enabled (bit 4 of \<open>mcr\<close>): a control/status write with
  the start bit set, while this controller's bus-busy flag is clear and another master holds
  the bus, sets the arbitration-lost flag and the error flag, does not set bus-busy and does
  nothing on the bus; whenever, after the start attempt, the bus is not held, the error flag
  is set and the write ends there, without any byte transfer: data register, raw interrupt
  status and receive data are untouched and at most the start appears on the bus; on an idle
  bus a single start+run+stop write starts, transfers exactly one byte (sent from the data
  register or received, by the address's direction bit), releases the bus, and leaves
  bus-busy, error and arbitration-lost clear and the byte-done status bit set. When the
  master is disabled a control/status write changes no register.
\<close>

theorem i2c_mcs_write_start_run_stop:
  assumes "mcr s AND 0x10 \<noteq> 0"
  shows "(val AND 2 \<noteq> 0 \<and> mcs s AND STELLARIS_I2C_MCS_BUSBSY = 0
          \<and> holder (bus s) = Some Other_master
        \<longrightarrow> (\<exists>s'. stm32_i2c_write s 0x04 val = Inr s'
              \<and> mcs s' = (mcs s OR STELLARIS_I2C_MCS_ARBLST) OR STELLARIS_I2C_MCS_ERROR
              \<and> mcs s' AND STELLARIS_I2C_MCS_ARBLST \<noteq> 0
              \<and> mcs s' AND STELLARIS_I2C_MCS_BUSBSY = 0
              \<and> bus s' = bus s \<and> mdr s' = mdr s \<and> mris s' = mris s))
     \<and> (\<not> i2c_bus_busy (bus (i2c_grab_bus s val))
          \<or> mcs (i2c_grab_bus s val) AND STELLARIS_I2C_MCS_BUSBSY = 0
        \<longrightarrow> (\<exists>s'. stm32_i2c_write s 0x04 val = Inr s'
              \<and> mcs s' = mcs (i2c_grab_bus s val) OR STELLARIS_I2C_MCS_ERROR
              \<and> mcs s' AND STELLARIS_I2C_MCS_ERROR \<noteq> 0
              \<and> mdr s' = mdr s \<and> mris s' = mris s
              \<and> rx_data (bus s') = rx_data (bus s)
              \<and> (bus_log (bus s') = bus_log (bus s)
                 \<or> bus_log (bus s')
                     = bus_log (bus s) @ [Start (ucast (drop_bit 1 (msa s))) (msa s AND 1 \<noteq> 0)])))
     \<and> (val AND 2 \<noteq> 0 \<and> val AND 1 \<noteq> 0 \<and> val AND 4 \<noteq> 0
          \<and> mcs s AND STELLARIS_I2C_MCS_BUSBSY = 0 \<and> holder (bus s) = None
        \<longrightarrow> (\<exists>s'. stm32_i2c_write s 0x04 val = Inr s'
              \<and> holder (bus s') = None
              \<and> bus_log (bus s') = bus_log (bus s) @
                   [Start (ucast (drop_bit 1 (msa s))) (msa s AND 1 \<noteq> 0),
                    (if msa s AND 1 \<noteq> 0 then Recv else Send (ucast (mdr s))),
                    Finish]
              \<and> mcs s' AND STELLARIS_I2C_MCS_BUSBSY = 0
              \<and> mcs s' AND STELLARIS_I2C_MCS_ERROR = 0
              \<and> mcs s' AND STELLARIS_I2C_MCS_ARBLST = 0
              \<and> mris s' = mris s OR 1))
     \<and> (mcr t AND 0x10 = 0 \<longrightarrow> stm32_i2c_write t 0x04 val = Inr (stm32_i2c_update t))"
proof -
  have d: "mcr t AND 0x10 = 0 \<longrightarrow> stm32_i2c_write t 0x04 val = Inr (stm32_i2c_update t)"
    by (simp add: stm32_i2c_write_def bind_err_def)
  show ?thesis
    using i2c_arbitration_lost [OF assms, of val] i2c_not_held_aborts [OF assms, of val]
      i2c_start_run_stop [OF assms, of val] d
    by blast
qed

lemma i2c_enabled_fields:
  "mcr (i2c_enabled h rx) = 0x10" "mcs (i2c_enabled h rx) = 0" "mdr (i2c_enabled h rx) = 0"
  "msa (i2c_enabled h rx) = 0" "mris (i2c_enabled h rx) = 0"
  "bus (i2c_enabled h rx) = \<lparr>holder = h, rx_data = rx, bus_log = []\<rparr>"
  by (simp_all add: i2c_enabled_def i2c_fresh_def stm32_i2c_reset_def stm32_i2c_update_def
      i2c_flags)

theorem i2c_mcs_write_start_run_stop_witness:
  "mcr (i2c_enabled None []) AND 0x10 \<noteq> 0
   \<and> (\<exists>s'. stm32_i2c_write (i2c_enabled (Some Other_master) []) 0x04 2 = Inr s'
         \<and> mcs s' = 0x12 \<and> bus_log (bus s') = [])
   \<and> (\<exists>s'. stm32_i2c_write (i2c_enabled None []) 0x04 1 = Inr s'
         \<and> mcs s' = 0x02 \<and> mris s' = 0 \<and> mdr s' = 0)
   \<and> (\<exists>s'. stm32_i2c_write (i2c_enabled None []) 0x04 7 = Inr s'
         \<and> holder (bus s') = None \<and> bus_log (bus s') = [Start 0 False, Send 0, Finish]
         \<and> mris s' = 1)"
proof -
  have en: "mcr (i2c_enabled h rx) AND 0x10 \<noteq> 0" for h rx
    by (simp add: i2c_enabled_fields)
  have g1: "i2c_grab_bus (i2c_enabled None []) 1 = i2c_enabled None []"
    by (simp add: i2c_grab_bus_def)
  have a: "\<exists>s'. stm32_i2c_write (i2c_enabled (Some Other_master) []) 0x04 2 = Inr s'
         \<and> mcs s' = 0x12 \<and> bus_log (bus s') = []"
  proof -
    from i2c_mcs_write_start_run_stop [OF en [of "Some Other_master" "[]"],
        where val = 2 and t = "i2c_fresh None []", THEN conjunct1]
    obtain s' where "stm32_i2c_write (i2c_enabled (Some Other_master) []) 0x04 2 = Inr s'"
      "mcs s' = (mcs (i2c_enabled (Some Other_master) []) OR STELLARIS_I2C_MCS_ARBLST)
                OR STELLARIS_I2C_MCS_ERROR"
      "bus s' = bus (i2c_enabled (Some Other_master) [])"
      by (simp add: i2c_enabled_fields i2c_flags) blast
    then show ?thesis
      by (simp add: i2c_enabled_fields i2c_flags)
  qed
  have b: "\<exists>s'. stm32_i2c_write (i2c_enabled None []) 0x04 1 = Inr s'
         \<and> mcs s' = 0x02 \<and> mris s' = 0 \<and> mdr s' = 0"
  proof -
    have nh: "\<not> i2c_bus_busy (bus (i2c_grab_bus (i2c_enabled None []) 1))
        \<or> mcs (i2c_grab_bus (i2c_enabled None []) 1) AND STELLARIS_I2C_MCS_BUSBSY = 0"
      unfolding g1 by (simp add: i2c_enabled_fields)
    from i2c_mcs_write_start_run_stop [OF en [of None "[]"],
        where val = 1 and t = "i2c_fresh None []", THEN conjunct2, THEN conjunct1, rule_format, OF nh]
    obtain s' where "stm32_i2c_write (i2c_enabled None []) 0x04 1 = Inr s'"
      "mcs s' = mcs (i2c_grab_bus (i2c_enabled None []) 1) OR STELLARIS_I2C_MCS_ERROR"
      "mdr s' = mdr (i2c_enabled None [])" "mris s' = mris (i2c_enabled None [])"
      by blast
    then show ?thesis
      unfolding g1 by (simp add: i2c_enabled_fields i2c_flags)
  qed
  have c: "\<exists>s'. stm32_i2c_write (i2c_enabled None []) 0x04 7 = Inr s'
         \<and> holder (bus s') = None \<and> bus_log (bus s') = [Start 0 False, Send 0, Finish]
         \<and> mris s' = 1"
  proof -
    have h: "(7 :: u64) AND 2 \<noteq> 0 \<and> (7 :: u64) AND 1 \<noteq> 0 \<and> (7 :: u64) AND 4 \<noteq> 0
        \<and> mcs (i2c_enabled None []) AND STELLARIS_I2C_MCS_BUSBSY = 0
        \<and> holder (bus (i2c_enabled None [])) = None"
      by (simp add: i2c_enabled_fields)
    from i2c_mcs_write_start_run_stop [OF en [of None "[]"],
        where val = 7 and t = "i2c_fresh None []", THEN conjunct2, THEN conjunct2,
        THEN conjunct1, rule_format, OF h]
    obtain s' where "stm32_i2c_write (i2c_enabled None []) 0x04 7 = Inr s'"
      "holder (bus s') = None"
      "bus_log (bus s') = bus_log (bus (i2c_enabled None [])) @
         [Start (ucast (drop_bit 1 (msa (i2c_enabled None []))))
            (msa (i2c_enabled None []) AND 1 \<noteq> 0),
          (if msa (i2c_enabled None []) AND 1 \<noteq> 0 then Recv
           else Send (ucast (mdr (i2c_enabled None [])))),
          Finish]"
      "mris s' = mris (i2c_enabled None []) OR 1"
      by blast
    then show ?thesis
      by (simp add: i2c_enabled_fields)
  qed
  from en [of None "[]"] a b c show ?thesis
    by blast
qed

text \<open>
  The claim as stated fails while the master is disabled, as it is after reset: with another
  master holding the bus, a control/status write with the start bit leaves the
  arbitration-lost flag clear, and on an idle bus a start+run+stop write transfers nothing.
\<close>

theorem i2c_disabled_start_counterexample:
  "mcr (i2c_fresh (Some Other_master) []) AND 0x10 = 0
   \<and> holder (bus (i2c_fresh (Some Other_master) [])) = Some Other_master
   \<and> field_of mcs (stm32_i2c_write (i2c_fresh (Some Other_master) []) 0x04 2) = Some 0
   \<and> (0 :: u32) AND STELLARIS_I2C_MCS_ARBLST = 0
   \<and> field_of bus (stm32_i2c_write (i2c_fresh None []) 0x04 7)
      = Some \<lparr>holder = None, rx_data = [], bus_log = []\<rparr>"
  by (simp add: field_of_def i2c_fresh_def stm32_i2c_reset_def stm32_i2c_update_def
      stm32_i2c_write_def bind_err_def i2c_flags)

section \<open>Analogue to digital converter: proofs\<close>

lemmas adc_fifo_flags = STELLARIS_ADC_FIFO_EMPTY_def STELLARIS_ADC_FIFO_FULL_def

lemma fifo_write_full:
  assumes "fifo_state (fifo s n) AND STELLARIS_ADC_FIFO_FULL \<noteq> 0"
  shows "stm32_adc_fifo_write s n v = s\<lparr>ostat := ostat s OR push_bit n 1\<rparr>"
  using assms by (simp add: stm32_adc_fifo_write_def Let_def)

lemma length16:
  assumes "length vs = 16"
  obtains v0 v1 v2 v3 v4 v5 v6 v7 v8 v9 v10 v11 v12 v13 v14 v15
  where "vs = [v0, v1, v2, v3, v4, v5, v6, v7, v8, v9, v10, v11, v12, v13, v14, v15]"
  using assms by (auto simp: eval_nat_numeral length_Suc_conv)

lemma below16:
  assumes "t < (16 :: nat)"
  shows "t \<in> {0, 1, 2, 3, 4, 5, 6, 7, 8, 9, 10, 11, 12, 13, 14, 15}"
  using assms by (simp add: insert_iff) arith

lemma fifo_fill_16:
  assumes "fifo_state (fifo s n) = STELLARIS_ADC_FIFO_EMPTY OR of_nat t OR push_bit 4 (of_nat t)"
    and "t \<in> {0, 1, 2, 3, 4, 5, 6, 7, 8, 9, 10, 11, 12, 13, 14, 15}"
  shows "ostat (adc_fifo_writes s n [v0, v1, v2, v3, v4, v5, v6, v7, v8, v9, v10, v11, v12, v13, v14, v15]) = ostat s
    \<and> fifo_state (fifo (adc_fifo_writes s n [v0, v1, v2, v3, v4, v5, v6, v7, v8, v9, v10, v11, v12, v13, v14, v15]) n)
        = STELLARIS_ADC_FIFO_FULL OR of_nat t OR push_bit 4 (of_nat t)
    \<and> map (\<lambda>i. fifo_data (fifo (adc_fifo_writes s n [v0, v1, v2, v3, v4, v5, v6, v7, v8, v9, v10, v11, v12, v13, v14, v15]) n) ((t + i) mod 16))
         [0, 1, 2, 3, 4, 5, 6, 7, 8, 9, 10, 11, 12, 13, 14, 15]
       = [v0, v1, v2, v3, v4, v5, v6, v7, v8, v9, v10, v11, v12, v13, v14, v15]"
  using assms(2)
  by (elim insertE emptyE)
     (use assms(1) in \<open>simp_all add: adc_fifo_writes_def stm32_adc_fifo_write_def Let_def
        adc_fifo_flags\<close>)

lemma set_bit_test:
  fixes w :: u32
  assumes "n < 4"
  shows "(w OR push_bit n 1) AND push_bit n 1 \<noteq> 0"
proof -
  have "(w OR push_bit n 1) AND push_bit n 1 = push_bit n 1"
    by (rule bit_word_eqI) (auto simp: bit_simps)
  moreover have "push_bit n (1 :: u32) \<noteq> 0"
    using assms by (simp add: push_bit_eq_mult)
  ultimately show ?thesis by simp
qed

lemma fifo_full_flag:
  fixes a b :: u32
  shows "(STELLARIS_ADC_FIFO_FULL OR a OR b) AND STELLARIS_ADC_FIFO_FULL \<noteq> 0"
  using and_exp_eq_0_iff_not_bit [of "STELLARIS_ADC_FIFO_FULL OR a OR b" 12]
  by (simp add: adc_fifo_flags bit_or_iff)

lemma fifo_read_empty:
  assumes "fifo_state (fifo s n) AND STELLARIS_ADC_FIFO_EMPTY \<noteq> 0"
  shows "stm32_adc_fifo_read s n
     = (fifo_data (fifo s n) (unat (fifo_state (fifo s n) AND 0xf)),
        s\<lparr>ustat := ustat s OR push_bit n 1\<rparr>)"
  using assms by (simp add: stm32_adc_fifo_read_def Let_def)

text \<open>
  The overflow half of the FIFO, for every sequencer \<open>n\<close>: 17 samples written into a FIFO
  whose empty flag is set, head and tail at the same slot \<open>t\<close>. The first 16 are stored in
  the slots \<open>t, t + 1, \<dots>\<close> (modulo 16) without touching the overflow status and leave
  the FIFO full with head back at the tail; the 17th sets the sequencer's overflow bit and
  is dropped, the stored samples and the head/tail state of every FIFO staying as they
  were. A read from a FIFO whose empty flag is set sets the sequencer's underflow bit,
  returns the value of the slot at the tail, and changes no FIFO state.
\<close>

lemma adc_fifo_overflow_and_flagged_underflow:
  assumes "n < 4" and "t < 16"
    and "fifo_state (fifo s n) = STELLARIS_ADC_FIFO_EMPTY OR of_nat t OR push_bit 4 (of_nat t)"
    and "length vs = 16"
  shows "ostat (adc_fifo_writes s n vs) = ostat s
     \<and> map (\<lambda>i. fifo_data (fifo (adc_fifo_writes s n vs) n) ((t + i) mod 16))
          [0, 1, 2, 3, 4, 5, 6, 7, 8, 9, 10, 11, 12, 13, 14, 15] = vs
     \<and> fifo_state (fifo (adc_fifo_writes s n vs) n)
         = STELLARIS_ADC_FIFO_FULL OR of_nat t OR push_bit 4 (of_nat t)
     \<and> ostat (adc_fifo_writes s n (vs @ [v])) = ostat s OR push_bit n 1
     \<and> ostat (adc_fifo_writes s n (vs @ [v])) AND push_bit n 1 \<noteq> 0
     \<and> fifo (adc_fifo_writes s n (vs @ [v])) = fifo (adc_fifo_writes s n vs)
     \<and> (m < 4 \<and> fifo_state (fifo r m) AND STELLARIS_ADC_FIFO_EMPTY \<noteq> 0
        \<longrightarrow> fst (stm32_adc_fifo_read r m)
              = fifo_data (fifo r m) (unat (fifo_state (fifo r m) AND 0xf))
          \<and> ustat (snd (stm32_adc_fifo_read r m)) = ustat r OR push_bit m 1
          \<and> ustat (snd (stm32_adc_fifo_read r m)) AND push_bit m 1 \<noteq> 0
          \<and> fifo (snd (stm32_adc_fifo_read r m)) = fifo r)"
proof -
  let ?s16 = "adc_fifo_writes s n vs"
  from assms(4) obtain v0 v1 v2 v3 v4 v5 v6 v7 v8 v9 v10 v11 v12 v13 v14 v15
    where vs: "vs = [v0, v1, v2, v3, v4, v5, v6, v7, v8, v9, v10, v11, v12, v13, v14, v15]"
    by (rule length16)
  have fill: "ostat ?s16 = ostat s
     \<and> fifo_state (fifo ?s16 n) = STELLARIS_ADC_FIFO_FULL OR of_nat t OR push_bit 4 (of_nat t)
     \<and> map (\<lambda>i. fifo_data (fifo ?s16 n) ((t + i) mod 16))
          [0, 1, 2, 3, 4, 5, 6, 7, 8, 9, 10, 11, 12, 13, 14, 15] = vs"
    unfolding vs by (rule fifo_fill_16 [OF assms(3) below16 [OF assms(2)]])
  have full: "fifo_state (fifo ?s16 n) AND STELLARIS_ADC_FIFO_FULL \<noteq> 0"
    using fill fifo_full_flag [of "of_nat t" "push_bit 4 (of_nat t)"] by simp
  have w17: "adc_fifo_writes s n (vs @ [v]) = ?s16\<lparr>ostat := ostat ?s16 OR push_bit n 1\<rparr>"
    using fifo_write_full [OF full, of v] by (simp add: adc_fifo_writes_def)
  have over: "ostat (adc_fifo_writes s n (vs @ [v])) = ostat s OR push_bit n 1"
    "fifo (adc_fifo_writes s n (vs @ [v])) = fifo ?s16"
    unfolding w17 using fill by simp_all
  have ovbit: "ostat (adc_fifo_writes s n (vs @ [v])) AND push_bit n 1 \<noteq> 0"
    unfolding over(1) by (rule set_bit_test [OF assms(1)])
  have rd: "m < 4 \<and> fifo_state (fifo r m) AND STELLARIS_ADC_FIFO_EMPTY \<noteq> 0
        \<longrightarrow> fst (stm32_adc_fifo_read r m)
              = fifo_data (fifo r m) (unat (fifo_state (fifo r m) AND 0xf))
          \<and> ustat (snd (stm32_adc_fifo_read r m)) = ustat r OR push_bit m 1
          \<and> ustat (snd (stm32_adc_fifo_read r m)) AND push_bit m 1 \<noteq> 0
          \<and> fifo (snd (stm32_adc_fifo_read r m)) = fifo r"
    using set_bit_test [of m "ustat r"] by (simp add: fifo_read_empty)
  from fill over ovbit rd show ?thesis
    by blast
qed

lemma adc_fresh_fields:
  "ostat adc_fresh = 0" "ustat adc_fresh = 0" "fifo_state (fifo adc_fresh 2) = 0x100"
  "fifo_data (fifo adc_fresh 2) 0 = 0"
  by (simp_all add: adc_fresh_def stm32_adc_reset_def adc_fifo_flags)

lemma adc_fifo_overflow_example:
  "(2 :: nat) < 4 \<and> (0 :: nat) < 16
   \<and> fifo_state (fifo adc_fresh 2) = STELLARIS_ADC_FIFO_EMPTY OR of_nat 0 OR push_bit 4 (of_nat 0)
   \<and> length [1, 2, 3, 4, 5, 6, 7, 8, 9, 10, 11, 12, 13, 14, 15, 16 :: u32] = 16
   \<and> ostat (adc_fifo_writes adc_fresh 2
        ([1, 2, 3, 4, 5, 6, 7, 8, 9, 10, 11, 12, 13, 14, 15, 16] @ [17])) = 4
   \<and> fifo (adc_fifo_writes adc_fresh 2
        ([1, 2, 3, 4, 5, 6, 7, 8, 9, 10, 11, 12, 13, 14, 15, 16] @ [17]))
      = fifo (adc_fifo_writes adc_fresh 2 [1, 2, 3, 4, 5, 6, 7, 8, 9, 10, 11, 12, 13, 14, 15, 16])
   \<and> fifo_state (fifo (adc_fifo_writes adc_fresh 2
        [1, 2, 3, 4, 5, 6, 7, 8, 9, 10, 11, 12, 13, 14, 15, 16]) 2) = 0x1000
   \<and> fst (stm32_adc_fifo_read adc_fresh 2) = 0
   \<and> ustat (snd (stm32_adc_fifo_read adc_fresh 2)) = 4
   \<and> fifo (snd (stm32_adc_fifo_read adc_fresh 2)) = fifo adc_fresh"
proof -
  let ?vs = "[1, 2, 3, 4, 5, 6, 7, 8, 9, 10, 11, 12, 13, 14, 15, 16] :: u32 list"
  have h1: "(2 :: nat) < 4" and h2: "(0 :: nat) < 16" and h4: "length ?vs = 16"
    by simp_all
  have h3: "fifo_state (fifo adc_fresh 2)
            = STELLARIS_ADC_FIFO_EMPTY OR of_nat 0 OR push_bit 4 (of_nat 0)"
    by (simp add: adc_fresh_fields adc_fifo_flags)
  have e: "(2 :: nat) < 4 \<and> fifo_state (fifo adc_fresh 2) AND STELLARIS_ADC_FIFO_EMPTY \<noteq> 0"
    by (simp add: adc_fresh_fields adc_fifo_flags)
  note inst = adc_fifo_overflow_and_flagged_underflow [OF h1 h2 h3 h4,
      where v = 17 and m = 2 and r = adc_fresh]
  have w: "ostat (adc_fifo_writes adc_fresh 2 (?vs @ [17])) = 4"
    "fifo (adc_fifo_writes adc_fresh 2 (?vs @ [17])) = fifo (adc_fifo_writes adc_fresh 2 ?vs)"
    "fifo_state (fifo (adc_fifo_writes adc_fresh 2 ?vs) 2) = 0x1000"
    using inst by (simp_all add: adc_fresh_fields adc_fifo_flags)
  have rd: "fst (stm32_adc_fifo_read adc_fresh 2) = 0"
    "ustat (snd (stm32_adc_fifo_read adc_fresh 2)) = 4"
    "fifo (snd (stm32_adc_fifo_read adc_fresh 2)) = fifo adc_fresh"
    using inst [THEN conjunct2, THEN conjunct2, THEN conjunct2, THEN conjunct2, THEN conjunct2,
        THEN conjunct2, rule_format, OF e]
    by (simp_all add: adc_fresh_fields)
  from h1 h2 h3 h4 w rd show ?thesis
    by blast
qed

lemma adc_fifo_filled_fifo:
  "fifo_state (fifo adc_fifo_filled 0) = 0x1000"
  "fifo_data (fifo adc_fifo_filled 0) 0 = 1"
  "fifo_data (fifo adc_fifo_filled 0) 15 = 16"
  "ustat adc_fifo_filled = 0" "ostat adc_fifo_filled = 0"
  by (simp_all add: adc_fifo_filled_def adc_fifo_writes_def stm32_adc_fifo_write_def Let_def
      adc_fresh_def stm32_adc_reset_def adc_fifo_flags)

lemma adc_fifo_read_nonempty:
  assumes "fifo_state (fifo s 0) = w \<and> ustat s = u \<and> fifo_data (fifo s 0) = d"
    and "w AND STELLARIS_ADC_FIFO_EMPTY = 0"
  shows "fifo_state (fifo (snd (stm32_adc_fifo_read s 0)) 0)
         = (let st2 = ((w AND NOT 0xf) OR (((w AND 0xf) + 1) AND 0xf))
                        AND NOT STELLARIS_ADC_FIFO_FULL
            in if (w AND 0xf) + 1 = (drop_bit 4 st2 AND 0xf)
               then st2 OR STELLARIS_ADC_FIFO_EMPTY else st2)
     \<and> ustat (snd (stm32_adc_fifo_read s 0)) = u
     \<and> fifo_data (fifo (snd (stm32_adc_fifo_read s 0)) 0) = d"
  using assms by (simp add: stm32_adc_fifo_read_def Let_def)

lemma adc_fifo_drained_state:
  "fifo_state (fifo adc_fifo_drained 0) = 0 \<and> ustat adc_fifo_drained = 0
   \<and> fifo_data (fifo adc_fifo_drained 0) = fifo_data (fifo adc_fifo_filled 0)"
proof -
  let ?R = "adc_fifo_reads adc_fifo_filled 0"
  let ?d = "fifo_data (fifo adc_fifo_filled 0)"
  have step: "fifo_state (fifo (?R (Suc k)) 0)
         = (let st2 = ((w AND NOT 0xf) OR (((w AND 0xf) + 1) AND 0xf))
                        AND NOT STELLARIS_ADC_FIFO_FULL
            in if (w AND 0xf) + 1 = (drop_bit 4 st2 AND 0xf)
               then st2 OR STELLARIS_ADC_FIFO_EMPTY else st2)
     \<and> ustat (?R (Suc k)) = 0 \<and> fifo_data (fifo (?R (Suc k)) 0) = ?d"
    if "fifo_state (fifo (?R k) 0) = w \<and> ustat (?R k) = 0 \<and> fifo_data (fifo (?R k) 0) = ?d"
      and "w AND STELLARIS_ADC_FIFO_EMPTY = 0" for k w
    using adc_fifo_read_nonempty [OF that] by simp
  have Suc_1: "Suc 1 = (2 :: nat)" by simp
  have Suc_2: "Suc 2 = (3 :: nat)" by simp
  have Suc_3: "Suc 3 = (4 :: nat)" by simp
  have Suc_4: "Suc 4 = (5 :: nat)" by simp
  have Suc_5: "Suc 5 = (6 :: nat)" by simp
  have Suc_6: "Suc 6 = (7 :: nat)" by simp
  have Suc_7: "Suc 7 = (8 :: nat)" by simp
  have Suc_8: "Suc 8 = (9 :: nat)" by simp
  have Suc_9: "Suc 9 = (10 :: nat)" by simp
  have Suc_10: "Suc 10 = (11 :: nat)" by simp
  have Suc_11: "Suc 11 = (12 :: nat)" by simp
  have Suc_12: "Suc 12 = (13 :: nat)" by simp
  have Suc_13: "Suc 13 = (14 :: nat)" by simp
  have Suc_14: "Suc 14 = (15 :: nat)" by simp
  have Suc_15: "Suc 15 = (16 :: nat)" by simp
  have f0: "fifo_state (fifo (?R 0) 0) = 0x1000 \<and> ustat (?R 0) = 0
      \<and> fifo_data (fifo (?R 0) 0) = ?d"
    by (simp add: adc_fifo_filled_fifo)
  have f1: "fifo_state (fifo (?R 1) 0) = 0x1 \<and> ustat (?R 1) = 0
      \<and> fifo_data (fifo (?R 1) 0) = ?d"
    using step [OF f0] by (simp del: adc_fifo_reads.simps add: adc_fifo_flags)
  have f2: "fifo_state (fifo (?R 2) 0) = 0x2 \<and> ustat (?R 2) = 0
      \<and> fifo_data (fifo (?R 2) 0) = ?d"
    using step [OF f1, unfolded Suc_1] by (simp del: adc_fifo_reads.simps add: adc_fifo_flags)
  have f3: "fifo_state (fifo (?R 3) 0) = 0x3 \<and> ustat (?R 3) = 0
      \<and> fifo_data (fifo (?R 3) 0) = ?d"
    using step [OF f2, unfolded Suc_2] by (simp del: adc_fifo_reads.simps add: adc_fifo_flags)
  have f4: "fifo_state (fifo (?R 4) 0) = 0x4 \<and> ustat (?R 4) = 0
      \<and> fifo_data (fifo (?R 4) 0) = ?d"
    using step [OF f3, unfolded Suc_3] by (simp del: adc_fifo_reads.simps add: adc_fifo_flags)
  have f5: "fifo_state (fifo (?R 5) 0) = 0x5 \<and> ustat (?R 5) = 0
      \<and> fifo_data (fifo (?R 5) 0) = ?d"
    using step [OF f4, unfolded Suc_4] by (simp del: adc_fifo_reads.simps add: adc_fifo_flags)
  have f6: "fifo_state (fifo (?R 6) 0) = 0x6 \<and> ustat (?R 6) = 0
      \<and> fifo_data (fifo (?R 6) 0) = ?d"
    using step [OF f5, unfolded Suc_5] by (simp del: adc_fifo_reads.simps add: adc_fifo_flags)
  have f7: "fifo_state (fifo (?R 7) 0) = 0x7 \<and> ustat (?R 7) = 0
      \<and> fifo_data (fifo (?R 7) 0) = ?d"
    using step [OF f6, unfolded Suc_6] by (simp del: adc_fifo_reads.simps add: adc_fifo_flags)
  have f8: "fifo_state (fifo (?R 8) 0) = 0x8 \<and> ustat (?R 8) = 0
      \<and> fifo_data (fifo (?R 8) 0) = ?d"
    using step [OF f7, unfolded Suc_7] by (simp del: adc_fifo_reads.simps add: adc_fifo_flags)
  have f9: "fifo_state (fifo (?R 9) 0) = 0x9 \<and> ustat (?R 9) = 0
      \<and> fifo_data (fifo (?R 9) 0) = ?d"
    using step [OF f8, unfolded Suc_8] by (simp del: adc_fifo_reads.simps add: adc_fifo_flags)
  have f10: "fifo_state (fifo (?R 10) 0) = 0xa \<and> ustat (?R 10) = 0
      \<and> fifo_data (fifo (?R 10) 0) = ?d"
    using step [OF f9, unfolded Suc_9] by (simp del: adc_fifo_reads.simps add: adc_fifo_flags)
  have f11: "fifo_state (fifo (?R 11) 0) = 0xb \<and> ustat (?R 11) = 0
      \<and> fifo_data (fifo (?R 11) 0) = ?d"
    using step [OF f10, unfolded Suc_10] by (simp del: adc_fifo_reads.simps add: adc_fifo_flags)
  have f12: "fifo_state (fifo (?R 12) 0) = 0xc \<and> ustat (?R 12) = 0
      \<and> fifo_data (fifo (?R 12) 0) = ?d"
    using step [OF f11, unfolded Suc_11] by (simp del: adc_fifo_reads.simps add: adc_fifo_flags)
  have f13: "fifo_state (fifo (?R 13) 0) = 0xd \<and> ustat (?R 13) = 0
      \<and> fifo_data (fifo (?R 13) 0) = ?d"
    using step [OF f12, unfolded Suc_12] by (simp del: adc_fifo_reads.simps add: adc_fifo_flags)
  have f14: "fifo_state (fifo (?R 14) 0) = 0xe \<and> ustat (?R 14) = 0
      \<and> fifo_data (fifo (?R 14) 0) = ?d"
    using step [OF f13, unfolded Suc_13] by (simp del: adc_fifo_reads.simps add: adc_fifo_flags)
  have f15: "fifo_state (fifo (?R 15) 0) = 0xf \<and> ustat (?R 15) = 0
      \<and> fifo_data (fifo (?R 15) 0) = ?d"
    using step [OF f14, unfolded Suc_14] by (simp del: adc_fifo_reads.simps add: adc_fifo_flags)
  have f16: "fifo_state (fifo (?R 16) 0) = 0x0 \<and> ustat (?R 16) = 0
      \<and> fifo_data (fifo (?R 16) 0) = ?d"
    using step [OF f15, unfolded Suc_15] by (simp del: adc_fifo_reads.simps add: adc_fifo_flags)
  from f16 show ?thesis
    by (simp add: adc_fifo_drained_def)
qed

text \<open>
  C8 at a failing input. Sixteen samples are written to the FIFO of sequencer 0 of a fresh
  converter and all sixteen are read back, so the FIFO is empty again: head and tail are at
  the same slot and nothing is stored. The last of these reads moved the tail from slot 15
  to slot 0, where \<open>stm32_adc_fifo_read\<close> compares \<open>tail + 1 = 16\<close> with the head \<open>0\<close> and so
  does not set the empty flag. The next read, from this empty FIFO, returns the stale value
  of slot 0, sets no underflow bit and advances the tail to slot 1.
\<close>

theorem adc_fifo_read_drained_no_underflow:
  "fifo_state (fifo adc_fifo_drained 0) AND 0xf
     = drop_bit 4 (fifo_state (fifo adc_fifo_drained 0)) AND 0xf
   \<and> fifo_state (fifo adc_fifo_drained 0) AND STELLARIS_ADC_FIFO_EMPTY = 0
   \<and> ustat adc_fifo_drained = 0
   \<and> fst (stm32_adc_fifo_read adc_fifo_drained 0) = 1
   \<and> ustat (snd (stm32_adc_fifo_read adc_fifo_drained 0)) = 0
   \<and> fifo_state (fifo (snd (stm32_adc_fifo_read adc_fifo_drained 0)) 0) = 1"
  using adc_fifo_drained_state
  by (simp add: stm32_adc_fifo_read_def adc_fifo_filled_fifo adc_fifo_flags Let_def)

text \<open>
  C7 at a failing input. With sequencers 0 and 1 active and both 4-bit trigger-source
  fields of \<open>emux\<close> selecting the timer, a trigger pulse samples sequencer 1 only: the test
  of the source reads eight bits of \<open>emux\<close> from bit \<open>4 * n\<close>, so for sequencer 0 it sees 0x55
  and skips it. The noise accumulator is advanced once, only bit 1 of \<open>ris\<close> is set, and the
  FIFO of sequencer 0 is still empty.
\<close>

theorem adc_trigger_skips_sequencer_0:
  "actss adc_two_timer_sequencers AND push_bit 0 1 \<noteq> 0
   \<and> take_bit 4 (drop_bit (0 * 4) (emux adc_two_timer_sequencers)) = STELLARIS_ADC_EM_TIMER
   \<and> actss adc_two_timer_sequencers AND push_bit 1 1 \<noteq> 0
   \<and> take_bit 4 (drop_bit (1 * 4) (emux adc_two_timer_sequencers)) = STELLARIS_ADC_EM_TIMER
   \<and> ris (stm32_adc_trigger adc_two_timer_sequencers) = 2
   \<and> noise (stm32_adc_trigger adc_two_timer_sequencers) = 1
   \<and> fifo_state (fifo (stm32_adc_trigger adc_two_timer_sequencers) 0) = STELLARIS_ADC_FIFO_EMPTY
   \<and> fifo_state (fifo (stm32_adc_trigger adc_two_timer_sequencers) 1) = 0x10
   \<and> fifo_data (fifo (stm32_adc_trigger adc_two_timer_sequencers) 1) 0 = 0x200"
  by (simp add: adc_two_timer_sequencers_def adc_fresh_def stm32_adc_reset_def
      stm32_adc_trigger_def adc_trigger_step_def stm32_adc_fifo_write_def stm32_adc_update_def
      Let_def adc_fifo_flags STELLARIS_ADC_EM_TIMER_def)

end
